theory Spec2Isabelle
  imports Complex_Main "HOL-Library.Multiset" "HOL-Library.Sublist"
begin

section \<open>JavaScript values shared by the scripts\<close>

text \<open>
  A JavaScript string-valued property that may be \<^verbatim>\<open>undefined\<close> (or \<^verbatim>\<open>null\<close>) is a
  \<open>string option\<close>. Strings are byte strings; every literal the scripts compare against is
  ASCII. A thrown \<^verbatim>\<open>Error\<close> carries its message; reading a property of \<^verbatim>\<open>undefined\<close>
  raises a \<^verbatim>\<open>TypeError\<close>, which carries the name of the property that was read.
\<close>

datatype js_error = Error string | TypeError string

text \<open>Truthiness of a possibly undefined string: \<^verbatim>\<open>undefined\<close> and \<^verbatim>\<open>''\<close> are falsy.\<close>

definition truthy :: "string option \<Rightarrow> bool" where
  "truthy v = (case v of None \<Rightarrow> False | Some s \<Rightarrow> s \<noteq> [])"

text \<open>\<^verbatim>\<open>a || b\<close> for a possibly undefined string \<open>a\<close> and a string \<open>b\<close>.\<close>

definition or_else :: "string option \<Rightarrow> string \<Rightarrow> string" where
  "or_else v d = (case v of None \<Rightarrow> d | Some s \<Rightarrow> if s = [] then d else s)"

text \<open>
  An object literal \<^verbatim>\<open>{ k1: v1, k2: v2, ... }\<close> is evaluated property by property, left to
  right, each property defined on the object under construction; the object itself is a
  map from property names to values.
\<close>

definition object_literal :: "(string \<times> 'v) list \<Rightarrow> (string \<rightharpoonup> 'v)" where
  "object_literal props = fold (\<lambda>(k, v) obj. obj(k \<mapsto> v)) props Map.empty"

text \<open>\<^verbatim>\<open>String.prototype.toLowerCase\<close> on ASCII text.\<close>

definition lower_char :: "char \<Rightarrow> char" where
  "lower_char c =
    (let n = (of_char c :: nat) in if 65 \<le> n \<and> n \<le> 90 then char_of (n + 32) else c)"

definition toLowerCase :: "string \<Rightarrow> string" where
  "toLowerCase s = map lower_char s"

definition upper_char :: "char \<Rightarrow> char" where
  "upper_char c =
    (let n = (of_char c :: nat) in if 97 \<le> n \<and> n \<le> 122 then char_of (n - 32) else c)"

definition toUpperCase :: "string \<Rightarrow> string" where
  "toUpperCase s = map upper_char s"

text \<open>\<^verbatim>\<open>String.prototype.includes\<close>: the needle occurs as a contiguous run.\<close>

fun str_includes :: "string \<Rightarrow> string \<Rightarrow> bool" where
  "str_includes [] needle = (needle = [])"
| "str_includes (c # cs) needle = (prefix needle (c # cs) \<or> str_includes cs needle)"

text \<open>\<^verbatim>\<open>String.prototype.replace\<close> with a string pattern: the first occurrence is replaced.\<close>

fun str_replace :: "string \<Rightarrow> string \<Rightarrow> string \<Rightarrow> string" where
  "str_replace [] needle rep = (if needle = [] then rep else [])"
| "str_replace (c # cs) needle rep =
     (if prefix needle (c # cs) then rep @ drop (length needle) (c # cs)
      else c # str_replace cs needle rep)"

text \<open>A non-negative integer in a template literal: its decimal digits.\<close>

definition digit_char :: "nat \<Rightarrow> char" where
  "digit_char d = char_of (48 + d)"

function decimal :: "nat \<Rightarrow> string" where
  "decimal n = (if n < 10 then [digit_char n] else decimal (n div 10) @ [digit_char (n mod 10)])"
  by pat_completeness auto
termination
  by (relation "measure id") auto

declare decimal.simps [simp del]

section \<open>lib/constants.js\<close>

definition ActivityTypes_MESSAGE :: string where "ActivityTypes_MESSAGE = ''message''"
definition Roles_USER :: string where "Roles_USER = ''user''"
definition Roles_BOT :: string where "Roles_BOT = ''bot''"
definition ConversationTypes_PERSONAL :: string where "ConversationTypes_PERSONAL = ''personal''"
definition ConversationTypes_GROUP :: string where "ConversationTypes_GROUP = ''group''"
definition ConversationTypes_CHANNEL :: string where "ConversationTypes_CHANNEL = ''channel''"
definition Defaults_TEXT_FORMAT :: string where "Defaults_TEXT_FORMAT = ''plain''"
definition Defaults_LOCALE :: string where "Defaults_LOCALE = ''en-US''"

section \<open>lib/auth-helper.js\<close>

text \<open>
  \<^verbatim>\<open>tokenCache\<close> is a \<^verbatim>\<open>Map\<close> from the key \<^verbatim>\<open>`${appId}:${appPassword}`\<close> to
  \<^verbatim>\<open>{ token, expiresAt }\<close>. Times are integer milliseconds (\<^verbatim>\<open>Date.now()\<close>).
\<close>

record cache_entry =
  token :: string
  expiresAt :: int

type_synonym token_cache = "string \<rightharpoonup> cache_entry"

definition cacheKey :: "string \<Rightarrow> string \<Rightarrow> string" where
  "cacheKey appId appPassword = appId @ '':'' @ appPassword"

text \<open>
  The credential library (\<^verbatim>\<open>new MicrosoftAppCredentials(appId, appPassword)\<close> followed by
  \<^verbatim>\<open>credentials.getToken()\<close>) is a parameter: for a pair of credentials it either throws an
  \<^verbatim>\<open>Error\<close> with a message (\<open>Inl\<close>) or yields a token (\<open>Inr\<close>).
\<close>

type_synonym credential_library = "string \<Rightarrow> string \<Rightarrow> string + string"

text \<open>What a call does besides returning: calls of the library and lines on \<^verbatim>\<open>console.error\<close>.\<close>

datatype auth_effect = LibraryCall string string | ErrorLine string

record token_outcome =
  returned :: "js_error + string"
  cache_after :: token_cache
  effects :: "auth_effect list"

text \<open>
  \<^verbatim>\<open>getBotToken(appId, appPassword, audience = null)\<close>. \<open>nowCheck\<close> is the value of
  \<^verbatim>\<open>Date.now()\<close> at the cache check, \<open>nowStore\<close> its value when the fresh token is stored
  (after the \<^verbatim>\<open>await\<close>). One call is modelled on its own: no other call runs between
  its cache check and its store.
\<close>

definition getBotToken ::
  "credential_library \<Rightarrow> int \<Rightarrow> int \<Rightarrow> token_cache \<Rightarrow> string \<Rightarrow> string \<Rightarrow> string option
   \<Rightarrow> token_outcome" where
  "getBotToken lib nowCheck nowStore tokenCache appId appPassword audience =
    (let key = cacheKey appId appPassword;
         cached = tokenCache key;
         fresh =
           (case lib appId appPassword of
              Inr tok \<Rightarrow>
                \<lparr>returned = Inr tok,
                 cache_after = tokenCache(key \<mapsto> \<lparr>token = tok, expiresAt = nowStore + 3600000\<rparr>),
                 effects = [LibraryCall appId appPassword]\<rparr>
            | Inl msg \<Rightarrow>
                \<lparr>returned = Inl (Error (''Failed to generate token: '' @ msg)),
                 cache_after = tokenCache,
                 effects = [LibraryCall appId appPassword,
                            ErrorLine (''Error generating Bot Framework token: '' @ msg)]\<rparr>)
     in case cached of
          None \<Rightarrow> fresh
        | Some c \<Rightarrow>
            if expiresAt c > nowCheck + 60000
            then \<lparr>returned = Inr (token c), cache_after = tokenCache, effects = []\<rparr>
            else fresh)"

text \<open>\<^verbatim>\<open>getAuthorizationHeader\<close>: the token behind \<^verbatim>\<open>Bearer \<close>; a failure of \<^verbatim>\<open>getBotToken\<close> propagates.\<close>

definition getAuthorizationHeader ::
  "credential_library \<Rightarrow> int \<Rightarrow> int \<Rightarrow> token_cache \<Rightarrow> string \<Rightarrow> string \<Rightarrow> token_outcome" where
  "getAuthorizationHeader lib nowCheck nowStore tokenCache appId appPassword =
    (let r = getBotToken lib nowCheck nowStore tokenCache appId appPassword None
     in case returned r of
          Inl e \<Rightarrow> r
        | Inr tok \<Rightarrow> r\<lparr>returned := Inr (''Bearer '' @ tok)\<rparr>)"

text \<open>\<^verbatim>\<open>clearTokenCache\<close>.\<close>

definition clearTokenCache :: "token_cache \<Rightarrow> token_cache" where
  "clearTokenCache tokenCache = Map.empty"

section \<open>lib/activity-factory.js\<close>

text \<open>
  The options of \<^verbatim>\<open>createMessageActivity\<close>. The nested objects \<^verbatim>\<open>from\<close>,
  \<^verbatim>\<open>recipient\<close> and \<^verbatim>\<open>conversation\<close> may be missing (\<open>None\<close>), and so may each
  string property.
\<close>

record user_ref =
  user_id :: "string option"
  user_name :: "string option"
  user_aadObjectId :: "string option"

record bot_ref =
  bot_id :: "string option"
  bot_name :: "string option"

record conversation_ref =
  conv_id :: "string option"
  conv_conversationType :: "string option"
  conv_tenantId :: "string option"
  conv_teamsChannelId :: "string option"
  conv_teamsTeamId :: "string option"

record message_options =
  opt_text :: "string option"
  opt_from :: "user_ref option"
  opt_recipient :: "bot_ref option"
  opt_conversation :: "conversation_ref option"
  opt_serviceUrl :: "string option"
  opt_channelId :: "string option"
  opt_textFormat :: "string option"
  opt_locale :: "string option"

text \<open>The Activity object that is built.\<close>

record activity_from =
  from_id :: "string option"
  from_name :: "string option"
  from_aadObjectId :: "string option"
  from_role :: string

record activity_recipient =
  recipient_id :: "string option"
  recipient_name :: string
  recipient_role :: string

record activity_conversation =
  conversation_id :: string
  conversationType :: string
  isGroup :: bool
  conversation_tenantId :: "string option"

record channel_data =
  teamsChannelId :: "string option"
  teamsTeamId :: "string option"
  tenant :: "string option"

record activity =
  activity_type :: string
  activity_id :: string
  timestamp :: string
  channelId :: string
  activity_from :: activity_from
  activity_recipient :: activity_recipient
  activity_conversation :: activity_conversation
  activity_text :: "string option"
  textFormat :: string
  activity_locale :: string
  activity_serviceUrl :: "string option"
  channelData :: "channel_data option"

text \<open>
  \<^verbatim>\<open>uuidv4()\<close> is a source of identifiers: the \<open>n\<close>-th call returns \<open>uuids n\<close>, and the
  number of calls made so far is threaded through. \<open>isoNow\<close> is
  \<^verbatim>\<open>new Date().toISOString()\<close>.
\<close>

type_synonym uuid_source = "nat \<Rightarrow> string"

text \<open>
  \<^verbatim>\<open>createMessageActivity(options)\<close>. The properties of the literal are evaluated in order:
  \<^verbatim>\<open>id: uuidv4()\<close> first, then \<^verbatim>\<open>from.id\<close>, \<^verbatim>\<open>recipient.id\<close>,
  \<^verbatim>\<open>conversation.id || ...\<close>; the second \<^verbatim>\<open>uuidv4()\<close> is called only when
  \<^verbatim>\<open>conversation.id\<close> is falsy.
\<close>

definition createMessageActivity ::
  "uuid_source \<Rightarrow> nat \<Rightarrow> string \<Rightarrow> message_options \<Rightarrow> js_error + (activity \<times> nat)" where
  "createMessageActivity uuids n isoNow options =
    (case opt_from options of
       None \<Rightarrow> Inl (TypeError ''id'')
     | Some from \<Rightarrow>
    (case opt_recipient options of
       None \<Rightarrow> Inl (TypeError ''id'')
     | Some recipient \<Rightarrow>
    (case opt_conversation options of
       None \<Rightarrow> Inl (TypeError ''id'')
     | Some conversation \<Rightarrow>
         let fresh_conversation = \<not> truthy (conv_id conversation)
         in Inr
          (\<lparr>activity_type = ActivityTypes_MESSAGE,
            activity_id = uuids n,
            timestamp = isoNow,
            channelId = (case opt_channelId options of None \<Rightarrow> ''msteams'' | Some c \<Rightarrow> c),
            activity_from =
              \<lparr>from_id = user_id from,
               from_name = user_name from,
               from_aadObjectId = user_aadObjectId from,
               from_role = Roles_USER\<rparr>,
            activity_recipient =
              \<lparr>recipient_id = bot_id recipient,
               recipient_name = or_else (bot_name recipient) ''Bot'',
               recipient_role = Roles_BOT\<rparr>,
            activity_conversation =
              \<lparr>conversation_id =
                 or_else (conv_id conversation) (''test-conversation-'' @ uuids (Suc n)),
               conversationType =
                 or_else (conv_conversationType conversation) ConversationTypes_PERSONAL,
               isGroup =
                 (conv_conversationType conversation = Some ConversationTypes_GROUP \<or>
                  conv_conversationType conversation = Some ConversationTypes_CHANNEL),
               conversation_tenantId = conv_tenantId conversation\<rparr>,
            activity_text = opt_text options,
            textFormat =
              (case opt_textFormat options of None \<Rightarrow> Defaults_TEXT_FORMAT | Some f \<Rightarrow> f),
            activity_locale = (case opt_locale options of None \<Rightarrow> Defaults_LOCALE | Some l \<Rightarrow> l),
            activity_serviceUrl = opt_serviceUrl options,
            channelData =
              Some \<lparr>teamsChannelId = conv_teamsChannelId conversation,
                    teamsTeamId = conv_teamsTeamId conversation,
                    tenant =
                      (if truthy (conv_tenantId conversation) then conv_tenantId conversation
                       else None)\<rparr>\<rparr>,
           if fresh_conversation then Suc (Suc n) else Suc n))))"

section \<open>config/local.env.js, config/stage.env.js, config/prod.env.js\<close>

text \<open>
  \<^verbatim>\<open>__ENV\<close> maps variable names to strings. An entry of a \<^verbatim>\<open>thresholds\<close> array is an
  expression such as \<^verbatim>\<open>'rate<0.01'\<close> or an object \<^verbatim>\<open>{ threshold, abortOnFail }\<close>.
\<close>

type_synonym environment = "string \<rightharpoonup> string"

datatype threshold = Threshold string | ThresholdAbort string bool

type_synonym thresholds = "string \<rightharpoonup> threshold list"

text \<open>The thresholds in force for a metric: the array under its key, or none.\<close>

definition thresholds_for :: "thresholds \<Rightarrow> string \<Rightarrow> threshold list" where
  "thresholds_for ths metric = (case ths metric of None \<Rightarrow> [] | Some entries \<Rightarrow> entries)"

text \<open>How many properties of a literal are written with a given key.\<close>

definition written_with :: "string \<Rightarrow> (string \<times> 'v) list \<Rightarrow> nat" where
  "written_with key props = length (filter (\<lambda>(k, v). k = key) props)"

record credentials =
  cred_appId :: "string option"
  cred_appPassword :: "string option"
  cred_tenantId :: "string option"

text \<open>
  The exported \<^verbatim>\<open>config\<close> object. Its \<^verbatim>\<open>loadTest\<close> part (\<^verbatim>\<open>vus\<close>, \<^verbatim>\<open>duration\<close>,
  \<^verbatim>\<open>message\<close>) is read by none of the functions below and is left out.
\<close>

record env_config =
  cfg_name :: string
  cfg_endpoint :: "string option"
  cfg_credentials :: credentials
  cfg_serviceUrl :: string
  cfg_testUser :: user_ref
  cfg_thresholds :: thresholds

definition TEAMS_SERVICE_URL :: string where
  "TEAMS_SERVICE_URL = ''https://smba.trafficmanager.net/teams''"

definition DEFAULT_AAD_OBJECT_ID :: string where
  "DEFAULT_AAD_OBJECT_ID = ''45908692-019e-4436-810c-b417f58f5f4f''"

definition LOCAL_ENDPOINT :: string where
  "LOCAL_ENDPOINT = ''http://localhost:3978/api/messages''"

text \<open>The \<^verbatim>\<open>thresholds\<close> literals, property by property as they are written.\<close>

definition local_thresholds_literal :: "(string \<times> threshold list) list" where
  "local_thresholds_literal =
    [(''http_req_failed'', [Threshold ''rate<0.01'']),
     (''http_req_duration'', [Threshold ''p(95)<500'']),
     (''http_req_duration'', [Threshold ''p(99)<1000''])]"

definition stage_thresholds_literal :: "(string \<times> threshold list) list" where
  "stage_thresholds_literal =
    [(''http_req_failed'', [Threshold ''rate<0.01'']),
     (''http_req_duration'', [Threshold ''p(95)<1000'']),
     (''http_req_duration'', [Threshold ''p(99)<2000''])]"

definition prod_thresholds_literal :: "(string \<times> threshold list) list" where
  "prod_thresholds_literal =
    [(''http_req_failed'', [Threshold ''rate<0.02'']),
     (''http_req_duration'', [Threshold ''p(95)<1500'']),
     (''http_req_duration'', [Threshold ''p(99)<3000''])]"

definition test_user :: "environment \<Rightarrow> string \<Rightarrow> string \<Rightarrow> user_ref" where
  "test_user env default_id default_name =
    \<lparr>user_id = Some (or_else (env ''TEST_USER_ID'') default_id),
     user_name = Some (or_else (env ''TEST_USER_NAME'') default_name),
     user_aadObjectId = Some (or_else (env ''TEST_USER_AAD_OBJECT_ID'') DEFAULT_AAD_OBJECT_ID)\<rparr>"

definition local_config :: "environment \<Rightarrow> env_config" where
  "local_config env =
    \<lparr>cfg_name = ''LOCAL'',
     cfg_endpoint = Some (or_else (env ''LOCAL_BOT_ENDPOINT'') LOCAL_ENDPOINT),
     cfg_credentials =
       \<lparr>cred_appId = env ''LOCAL_MICROSOFT_APP_ID'',
        cred_appPassword = env ''LOCAL_MICROSOFT_APP_PASSWORD'',
        cred_tenantId = env ''LOCAL_MICROSOFT_APP_TENANT_ID''\<rparr>,
     cfg_serviceUrl = or_else (env ''SERVICE_URL'') TEAMS_SERVICE_URL,
     cfg_testUser = test_user env ''29:load-test-user-local'' ''Load Test User (Local)'',
     cfg_thresholds = object_literal local_thresholds_literal\<rparr>"

definition stage_config :: "environment \<Rightarrow> env_config" where
  "stage_config env =
    \<lparr>cfg_name = ''STAGE'',
     cfg_endpoint = env ''STAGE_BOT_ENDPOINT'',
     cfg_credentials =
       \<lparr>cred_appId = env ''STAGE_MICROSOFT_APP_ID'',
        cred_appPassword = env ''STAGE_MICROSOFT_APP_PASSWORD'',
        cred_tenantId = env ''STAGE_MICROSOFT_APP_TENANT_ID''\<rparr>,
     cfg_serviceUrl = or_else (env ''SERVICE_URL'') TEAMS_SERVICE_URL,
     cfg_testUser = test_user env ''29:load-test-user-stage'' ''Load Test User (Stage)'',
     cfg_thresholds = object_literal stage_thresholds_literal\<rparr>"

definition prod_config :: "environment \<Rightarrow> env_config" where
  "prod_config env =
    \<lparr>cfg_name = ''PRODUCTION'',
     cfg_endpoint = env ''PROD_BOT_ENDPOINT'',
     cfg_credentials =
       \<lparr>cred_appId = env ''PROD_MICROSOFT_APP_ID'',
        cred_appPassword = env ''PROD_MICROSOFT_APP_PASSWORD'',
        cred_tenantId = env ''PROD_MICROSOFT_APP_TENANT_ID''\<rparr>,
     cfg_serviceUrl = or_else (env ''SERVICE_URL'') TEAMS_SERVICE_URL,
     cfg_testUser = test_user env ''29:load-test-user-prod'' ''Load Test User (Prod)'',
     cfg_thresholds = object_literal prod_thresholds_literal\<rparr>"

text \<open>
  \<^verbatim>\<open>createTestActivity(config, message = 'test')\<close> of lib/activity-factory.js. The argument
  object is built first, which calls \<^verbatim>\<open>uuidv4()\<close> for the conversation id; then
  \<^verbatim>\<open>createMessageActivity\<close> runs.
\<close>

definition createTestActivity ::
  "uuid_source \<Rightarrow> nat \<Rightarrow> string \<Rightarrow> env_config \<Rightarrow> string option
   \<Rightarrow> js_error + (activity \<times> nat)" where
  "createTestActivity uuids n isoNow config message =
    createMessageActivity uuids (Suc n) isoNow
      \<lparr>opt_text = Some (case message of None \<Rightarrow> ''test'' | Some m \<Rightarrow> m),
       opt_from =
         Some \<lparr>user_id = user_id (cfg_testUser config),
               user_name = user_name (cfg_testUser config),
               user_aadObjectId = user_aadObjectId (cfg_testUser config)\<rparr>,
       opt_recipient =
         Some \<lparr>bot_id = cred_appId (cfg_credentials config),
               bot_name = Some ''Workoflow Bot''\<rparr>,
       opt_conversation =
         Some \<lparr>conv_id = Some (''test-conversation-'' @ uuids n),
               conv_conversationType = Some ConversationTypes_PERSONAL,
               conv_tenantId = cred_tenantId (cfg_credentials config),
               conv_teamsChannelId = None,
               conv_teamsTeamId = None\<rparr>,
       opt_serviceUrl = Some (cfg_serviceUrl config),
       opt_channelId = None,
       opt_textFormat = None,
       opt_locale = None\<rparr>"

section \<open>The k6 calls the test scripts make\<close>

text \<open>
  A request as \<^verbatim>\<open>http.post(url, payload, params)\<close> or \<^verbatim>\<open>http.get(url)\<close> hands it to k6;
  header and tag objects are maps. Of a response the scripts read \<^verbatim>\<open>status\<close>,
  \<^verbatim>\<open>timings.duration\<close> (milliseconds) and \<^verbatim>\<open>body\<close> (a string or \<^verbatim>\<open>null\<close>).
\<close>

record request =
  req_method :: string
  req_url :: "string option"
  req_payload :: "string option"
  req_headers :: "string \<rightharpoonup> string"
  req_tags :: "string \<rightharpoonup> string"

record response =
  status :: nat
  timings_duration :: rat
  body :: "string option"

text \<open>A value handed to a custom metric: a boolean or a number.\<close>

datatype metric_value = BoolValue bool | NumValue rat

text \<open>
  What a script does, in program order: requests, results of named checks, values added to
  metrics, console lines and sleeps (in seconds). Console lines are kept without their
  emoji, leading and trailing newlines, and the lines that only draw a rule.
\<close>

datatype k6_effect =
    HttpRequest request
  | CheckResult string bool
  | MetricAdd string metric_value
  | ConsoleLog string
  | ConsoleWarn string
  | ConsoleError string
  | Sleep rat

text \<open>
  \<^verbatim>\<open>check(val, sets)\<close> evaluates every named check on the value, reports each result and
  returns whether all of them passed.
\<close>

definition check :: "'a \<Rightarrow> (string \<times> ('a \<Rightarrow> bool)) list \<Rightarrow> bool \<times> k6_effect list" where
  "check val sets =
    (list_all (\<lambda>(name, f). f val) sets, map (\<lambda>(name, f). CheckResult name (f val)) sets)"

text \<open>
  What an iteration reads from outside: the two values of \<^verbatim>\<open>Date.now()\<close> inside
  \<^verbatim>\<open>createActivity\<close>, \<^verbatim>\<open>Math.random().toString(36).substring(7)\<close>,
  \<^verbatim>\<open>new Date().toISOString()\<close>, the \<^verbatim>\<open>Math.random()\<close> of the think time, and the
  response that the endpoint gives to a request.
\<close>

record ambient =
  date_now_first :: nat
  date_now_second :: nat
  random_suffix :: string
  iso_timestamp :: string
  math_random :: rat
  http_send :: "request \<Rightarrow> response"

text \<open>
  The \<^verbatim>\<open>createActivity\<close> helpers of the scripts build the same literal and differ in the
  prefixes of the two ids, the default sender, the recipient id and the tenant id.
\<close>

definition script_activity ::
  "environment \<Rightarrow> string \<Rightarrow> string \<Rightarrow> string \<Rightarrow> string \<Rightarrow> string option \<Rightarrow> string option
   \<Rightarrow> string \<Rightarrow> string \<Rightarrow> activity" where
  "script_activity env activityId conversationId default_user default_name recipientId
     tenantOfBot isoNow text =
    \<lparr>activity_type = ''message'',
     activity_id = activityId,
     timestamp = isoNow,
     channelId = ''msteams'',
     activity_from =
       \<lparr>from_id = Some (or_else (env ''TEST_USER_ID'') default_user),
        from_name = Some (or_else (env ''TEST_USER_NAME'') default_name),
        from_aadObjectId = Some (or_else (env ''TEST_USER_AAD_OBJECT_ID'') DEFAULT_AAD_OBJECT_ID),
        from_role = ''user''\<rparr>,
     activity_recipient =
       \<lparr>recipient_id = recipientId, recipient_name = ''Workoflow Bot'', recipient_role = ''bot''\<rparr>,
     activity_conversation =
       \<lparr>conversation_id = conversationId,
        conversationType = ''personal'',
        isGroup = False,
        conversation_tenantId = tenantOfBot\<rparr>,
     activity_text = Some text,
     textFormat = ''plain'',
     activity_locale = ''en-US'',
     activity_serviceUrl = Some (or_else (env ''SERVICE_URL'') TEAMS_SERVICE_URL),
     channelData = None\<rparr>"

text \<open>A string or \<^verbatim>\<open>null\<close>/\<^verbatim>\<open>undefined\<close> inside a template literal.\<close>

definition in_template :: "string \<Rightarrow> string option \<Rightarrow> string" where
  "in_template missing v = (case v of None \<Rightarrow> missing | Some s \<Rightarrow> s)"

section \<open>tests/simple-message.test.js (authenticated version)\<close>

record test_config =
  config_endpoint :: "string option"
  config_healthEndpoint :: "string option"
  config_appId :: "string option"
  config_tenantId :: "string option"
  config_token :: "string option"

text \<open>\<^verbatim>\<open>const ENV = __ENV.ENV || 'local'\<close>.\<close>

definition ENV :: "environment \<Rightarrow> string" where
  "ENV env = or_else (env ''ENV'') ''local''"

text \<open>The \<^verbatim>\<open>switch (ENV.toLowerCase())\<close>; the script has no \<^verbatim>\<open>healthEndpoint\<close>.\<close>

definition simple_message_select :: "environment \<Rightarrow> js_error + test_config" where
  "simple_message_select env =
    (let e = toLowerCase (ENV env) in
     if e = ''local'' then
       Inr \<lparr>config_endpoint = Some (or_else (env ''LOCAL_BOT_ENDPOINT'') LOCAL_ENDPOINT),
            config_healthEndpoint = None,
            config_appId = env ''LOCAL_MICROSOFT_APP_ID'',
            config_tenantId = env ''LOCAL_MICROSOFT_APP_TENANT_ID'',
            config_token = env ''BOT_TOKEN''\<rparr>
     else if e = ''stage'' then
       Inr \<lparr>config_endpoint = env ''STAGE_BOT_ENDPOINT'',
            config_healthEndpoint = None,
            config_appId = env ''STAGE_MICROSOFT_APP_ID'',
            config_tenantId = env ''STAGE_MICROSOFT_APP_TENANT_ID'',
            config_token = env ''BOT_TOKEN''\<rparr>
     else if e = ''prod'' then
       Inr \<lparr>config_endpoint = env ''PROD_BOT_ENDPOINT'',
            config_healthEndpoint = None,
            config_appId = env ''PROD_MICROSOFT_APP_ID'',
            config_tenantId = env ''PROD_MICROSOFT_APP_TENANT_ID'',
            config_token = env ''BOT_TOKEN''\<rparr>
     else Inl (Error (''Unknown environment: '' @ ENV env)))"

text \<open>
  The top level of the module up to \<^verbatim>\<open>// Custom metrics\<close>: the switch, then the validation.
  A missing endpoint throws; a missing token only warns.
\<close>

definition simple_message_init :: "environment \<Rightarrow> js_error + (test_config \<times> k6_effect list)" where
  "simple_message_init env =
    (case simple_message_select env of
       Inl e \<Rightarrow> Inl e
     | Inr config \<Rightarrow>
         if \<not> truthy (config_endpoint config)
         then Inl (Error (''Missing bot endpoint for environment: '' @ ENV env))
         else Inr (config,
                   if \<not> truthy (config_token config)
                   then [ConsoleWarn ''No BOT_TOKEN provided. Run `npm run generate-token` to generate one.'']
                   else []))"

text \<open>
  \<^verbatim>\<open>options.stages\<close>. A stage is \<^verbatim>\<open>{ duration, target }\<close>; the duration strings
  \<^verbatim>\<open>'10s'\<close>, \<^verbatim>\<open>'30s'\<close>, \<^verbatim>\<open>'1m'\<close> are given in milliseconds.
\<close>

record stage =
  stage_duration :: nat
  stage_target :: nat

definition simple_message_stages :: "stage list" where
  "simple_message_stages =
    [\<lparr>stage_duration = 10000, stage_target = 5\<rparr>,
     \<lparr>stage_duration = 30000, stage_target = 5\<rparr>,
     \<lparr>stage_duration = 10000, stage_target = 0\<rparr>]"

definition simple_message_thresholds_literal :: "(string \<times> threshold list) list" where
  "simple_message_thresholds_literal =
    [(''http_req_failed'', [Threshold ''rate<0.01'']),
     (''http_req_duration'', [Threshold ''p(95)<500'']),
     (''http_req_duration'', [Threshold ''p(99)<1000'']),
     (''errors'', [Threshold ''rate<0.05''])]"

definition simple_message_thresholds :: thresholds where
  "simple_message_thresholds = object_literal simple_message_thresholds_literal"

definition simple_message_createActivity ::
  "environment \<Rightarrow> test_config \<Rightarrow> ambient \<Rightarrow> string \<Rightarrow> activity" where
  "simple_message_createActivity env config amb text =
    script_activity env
      (''load-test-'' @ decimal (date_now_first amb) @ ''-'' @ random_suffix amb)
      (''test-conversation-'' @ decimal (date_now_second amb))
      ''29:load-test-user'' ''Load Test User''
      (config_appId config) (config_tenantId config) (iso_timestamp amb) text"

text \<open>The three checks of the default function.\<close>

definition simple_message_checks :: "(string \<times> (response \<Rightarrow> bool)) list" where
  "simple_message_checks =
    [(''status is 200 or 202'', \<lambda>r. status r = 200 \<or> status r = 202),
     (''response time < 1000ms'', \<lambda>r. timings_duration r < 1000),
     (''no error in response'',
        \<lambda>r. \<not> truthy (body r) \<or> \<not> str_includes (in_template [] (body r)) ''error'')]"

text \<open>
  The request that the default function builds. \<open>stringify\<close> is \<^verbatim>\<open>JSON.stringify\<close> on
  activities. The property \<^verbatim>\<open>'Authorization'\<close> is set only under \<^verbatim>\<open>if (config.token)\<close>.
\<close>

definition simple_message_request ::
  "(activity \<Rightarrow> string) \<Rightarrow> environment \<Rightarrow> test_config \<Rightarrow> ambient \<Rightarrow> request" where
  "simple_message_request stringify env config amb =
    (let activity = simple_message_createActivity env config amb (or_else (env ''TEST_MESSAGE'') ''test'');
         payload = stringify activity;
         headers = object_literal [(''Content-Type'', ''application/json'')];
         headers = (if truthy (config_token config)
                    then headers(''Authorization'' \<mapsto> ''Bearer '' @ in_template [] (config_token config))
                    else headers)
     in \<lparr>req_method = ''POST'', req_url = config_endpoint config,
         req_payload = Some payload, req_headers = headers,
         req_tags = object_literal [(''name'', ''SendMessage'')]\<rparr>)"

text \<open>The default function, run by each virtual user once per iteration.\<close>

definition simple_message_default ::
  "(activity \<Rightarrow> string) \<Rightarrow> environment \<Rightarrow> test_config \<Rightarrow> ambient \<Rightarrow> k6_effect list" where
  "simple_message_default stringify env config amb =
    (let req = simple_message_request stringify env config amb;
         response = http_send amb req;
         (success, results) = check response simple_message_checks
     in [HttpRequest req] @ results @ [MetricAdd ''errors'' (BoolValue (\<not> success))] @
        (if \<not> success
         then [ConsoleError (''Request failed: '' @ decimal (status response) @ '' - '' @
                             in_template ''null'' (body response))]
         else []) @
        [Sleep 1])"

text \<open>
  A run of the script: the module is evaluated first, and when that throws nothing else
  happens; otherwise the default function runs once per entry of \<open>ambs\<close>. The
  \<^verbatim>\<open>setup\<close> and \<^verbatim>\<open>teardown\<close> hooks only write to the console and are left out.
\<close>

record script_run =
  thrown :: "js_error option"
  trace :: "k6_effect list"

definition simple_message_run ::
  "(activity \<Rightarrow> string) \<Rightarrow> environment \<Rightarrow> ambient list \<Rightarrow> script_run" where
  "simple_message_run stringify env ambs =
    (case simple_message_init env of
       Inl e \<Rightarrow> \<lparr>thrown = Some e, trace = []\<rparr>
     | Inr (config, warnings) \<Rightarrow>
         \<lparr>thrown = None,
          trace = warnings @ concat (map (simple_message_default stringify env config) ambs)\<rparr>)"

section \<open>tests/simple-message.test.js (version for a bot in load-test mode)\<close>

text \<open>\<^verbatim>\<open>const BOT_ENDPOINT = __ENV.BOT_ENDPOINT || 'http://localhost:3978/api/messages'\<close>.\<close>

definition BOT_ENDPOINT :: "environment \<Rightarrow> string" where
  "BOT_ENDPOINT env = or_else (env ''BOT_ENDPOINT'') LOCAL_ENDPOINT"

definition BOT_TENANT_ID :: string where
  "BOT_TENANT_ID = ''ae6f26a3-6f27-4ed6-a3a8-800c3226fb79''"

definition load_mode_thresholds_literal :: "(string \<times> threshold list) list" where
  "load_mode_thresholds_literal =
    [(''http_req_failed'', [ThresholdAbort ''rate<0.01'' True]),
     (''http_req_duration'', [Threshold ''p(95)<10000'']),
     (''http_req_duration'', [Threshold ''p(99)<15000'']),
     (''errors'', [Threshold ''rate<0.05''])]"

definition load_mode_thresholds :: thresholds where
  "load_mode_thresholds = object_literal load_mode_thresholds_literal"

definition load_mode_createActivity :: "environment \<Rightarrow> ambient \<Rightarrow> string \<Rightarrow> activity" where
  "load_mode_createActivity env amb text =
    script_activity env
      (''load-test-'' @ decimal (date_now_first amb) @ ''-'' @ random_suffix amb)
      (''test-conversation-'' @ decimal (date_now_second amb))
      ''29:load-test-user'' ''Load Test User''
      (Some ''workoflow-bot'') (Some BOT_TENANT_ID) (iso_timestamp amb) text"

definition load_mode_checks :: "(string \<times> (response \<Rightarrow> bool)) list" where
  "load_mode_checks =
    [(''status is 200 or 202'', \<lambda>r. status r = 200 \<or> status r = 202),
     (''response time < 10s'', \<lambda>r. timings_duration r < 10000)]"

definition api_key_headers :: "environment \<Rightarrow> (string \<rightharpoonup> string)" where
  "api_key_headers env =
    object_literal [(''Content-Type'', ''application/json''),
                    (''x-api-key'', or_else (env ''LOAD_TEST_API_KEY'') [])]"

definition load_mode_request ::
  "(activity \<Rightarrow> string) \<Rightarrow> environment \<Rightarrow> ambient \<Rightarrow> request" where
  "load_mode_request stringify env amb =
    (let activity = load_mode_createActivity env amb (or_else (env ''TEST_MESSAGE'') ''test'');
         payload = stringify activity
     in \<lparr>req_method = ''POST'', req_url = Some (BOT_ENDPOINT env),
         req_payload = Some payload, req_headers = api_key_headers env,
         req_tags = object_literal [(''name'', ''SendMessage'')]\<rparr>)"

definition load_mode_default ::
  "(activity \<Rightarrow> string) \<Rightarrow> environment \<Rightarrow> ambient \<Rightarrow> k6_effect list" where
  "load_mode_default stringify env amb =
    (let req = load_mode_request stringify env amb;
         response = http_send amb req;
         (success, results) = check response load_mode_checks
     in [HttpRequest req] @ results @ [MetricAdd ''errors'' (BoolValue (\<not> success))] @
        (if \<not> success
         then [ConsoleError (''Request failed: '' @ decimal (status response) @ '' - '' @
                             in_template ''null'' (body response))]
         else []) @
        [Sleep 1])"

section \<open>tests/stress-breakpoint.test.js\<close>

definition stress_stages :: "stage list" where
  "stress_stages =
    concat (map (\<lambda>vus. [\<lparr>stage_duration = 30000, stage_target = vus\<rparr>,
                         \<lparr>stage_duration = 60000, stage_target = vus\<rparr>])
                [5, 10, 25, 50, 75, 100, 150, 200]) @
    [\<lparr>stage_duration = 30000, stage_target = 0\<rparr>]"

definition stress_thresholds_literal :: "(string \<times> threshold list) list" where
  "stress_thresholds_literal =
    [(''http_req_duration'', [ThresholdAbort ''p(95)<10000'' True]),
     (''http_req_failed'', [ThresholdAbort ''rate<0.01'' True]),
     (''errors'', [Threshold ''rate<0.05''])]"

definition stress_createActivity :: "environment \<Rightarrow> nat \<Rightarrow> ambient \<Rightarrow> string \<Rightarrow> activity" where
  "stress_createActivity env vu amb text =
    script_activity env
      (''stress-'' @ decimal (date_now_first amb) @ ''-'' @ random_suffix amb)
      (''stress-conversation-'' @ decimal (date_now_second amb) @ ''-'' @ decimal vu)
      ''29:load-test-user'' ''Load Test User''
      (Some ''workoflow-bot'') (Some BOT_TENANT_ID) (iso_timestamp amb) text"

text \<open>\<^verbatim>\<open>getCurrentPhase()\<close> reads \<^verbatim>\<open>__VU\<close>, the number of the virtual user.\<close>

definition getCurrentPhase :: "nat \<Rightarrow> string" where
  "getCurrentPhase vus =
    (if vus \<le> 5 then ''phase1-5vu''
     else if vus \<le> 10 then ''phase2-10vu''
     else if vus \<le> 25 then ''phase3-25vu''
     else if vus \<le> 50 then ''phase4-50vu''
     else if vus \<le> 75 then ''phase5-75vu''
     else if vus \<le> 100 then ''phase6-100vu''
     else if vus \<le> 150 then ''phase7-150vu''
     else ''phase8-200vu'')"

text \<open>
  The request and the default function: it counts the request, adds the response time to the
  Trend, runs the checks and adds the outcome to both Rates.
\<close>

definition stress_request ::
  "(activity \<Rightarrow> string) \<Rightarrow> environment \<Rightarrow> nat \<Rightarrow> ambient \<Rightarrow> request" where
  "stress_request stringify env vu amb =
    (let phase = getCurrentPhase vu;
         activity = stress_createActivity env vu amb (or_else (env ''TEST_MESSAGE'') ''stress test'');
         payload = stringify activity
     in \<lparr>req_method = ''POST'', req_url = Some (BOT_ENDPOINT env),
         req_payload = Some payload, req_headers = api_key_headers env,
         req_tags = object_literal [(''name'', ''SendMessage''), (''phase'', phase)]\<rparr>)"

definition stress_default ::
  "(activity \<Rightarrow> string) \<Rightarrow> environment \<Rightarrow> nat \<Rightarrow> ambient \<Rightarrow> k6_effect list" where
  "stress_default stringify env vu amb =
    (let phase = getCurrentPhase vu;
         req = stress_request stringify env vu amb;
         response = http_send amb req;
         (success, results) = check response load_mode_checks
     in [HttpRequest req,
         MetricAdd ''total_requests'' (NumValue 1),
         MetricAdd ''response_time_trend'' (NumValue (timings_duration response))] @
        results @
        [MetricAdd ''success_rate'' (BoolValue success),
         MetricAdd ''errors'' (BoolValue (\<not> success))] @
        (if \<not> success
         then [ConsoleError (''['' @ phase @ ''] Request failed: '' @ decimal (status response) @
                 '' - '' @ in_template ''undefined'' (map_option (take 200) (body response)))]
         else []) @
        [Sleep (math_random amb * (1 / 2) + 1 / 2)])"

section \<open>tests/smoke.test.js\<close>

text \<open>The switch of the smoke test also derives the health endpoint.\<close>

definition health_of :: "string \<Rightarrow> string" where
  "health_of endpoint = str_replace endpoint ''/api/messages'' ''/api/health''"

definition smoke_select :: "environment \<Rightarrow> js_error + test_config" where
  "smoke_select env =
    (let e = toLowerCase (ENV env) in
     if e = ''local'' then
       Inr \<lparr>config_endpoint = Some (or_else (env ''LOCAL_BOT_ENDPOINT'') LOCAL_ENDPOINT),
            config_healthEndpoint =
              (if truthy (env ''LOCAL_BOT_ENDPOINT'')
               then map_option health_of (env ''LOCAL_BOT_ENDPOINT'')
               else Some ''http://localhost:3978/api/health''),
            config_appId = env ''LOCAL_MICROSOFT_APP_ID'',
            config_tenantId = env ''LOCAL_MICROSOFT_APP_TENANT_ID'',
            config_token = env ''BOT_TOKEN''\<rparr>
     else if e = ''stage'' then
       Inr \<lparr>config_endpoint = env ''STAGE_BOT_ENDPOINT'',
            config_healthEndpoint = map_option health_of (env ''STAGE_BOT_ENDPOINT''),
            config_appId = env ''STAGE_MICROSOFT_APP_ID'',
            config_tenantId = env ''STAGE_MICROSOFT_APP_TENANT_ID'',
            config_token = env ''BOT_TOKEN''\<rparr>
     else if e = ''prod'' then
       Inr \<lparr>config_endpoint = env ''PROD_BOT_ENDPOINT'',
            config_healthEndpoint = map_option health_of (env ''PROD_BOT_ENDPOINT''),
            config_appId = env ''PROD_MICROSOFT_APP_ID'',
            config_tenantId = env ''PROD_MICROSOFT_APP_TENANT_ID'',
            config_token = env ''BOT_TOKEN''\<rparr>
     else Inl (Error (''Unknown environment: '' @ ENV env)))"

definition smoke_createActivity ::
  "environment \<Rightarrow> test_config \<Rightarrow> ambient \<Rightarrow> string \<Rightarrow> activity" where
  "smoke_createActivity env config amb text =
    script_activity env
      (''smoke-test-'' @ decimal (date_now_first amb))
      (''smoke-conversation-'' @ decimal (date_now_second amb))
      ''29:smoke-test-user'' ''Smoke Test User''
      (config_appId config) (config_tenantId config) (iso_timestamp amb) text"

definition smoke_checks :: "(string \<times> (response \<Rightarrow> bool)) list" where
  "smoke_checks =
    [(''endpoint is reachable'', \<lambda>r. status r \<noteq> 0),
     (''status is 200 or 202'', \<lambda>r. status r = 200 \<or> status r = 202),
     (''status is not 401 (auth OK)'', \<lambda>r. status r \<noteq> 401),
     (''status is not 403 (forbidden)'', \<lambda>r. status r \<noteq> 403),
     (''status is not 500 (server error)'', \<lambda>r. status r \<noteq> 500),
     (''response time < 5s'', \<lambda>r. timings_duration r < 5000)]"

text \<open>
  The request of the group \<^verbatim>\<open>'Bot Endpoint Connectivity'\<close>: the \<^verbatim>\<open>params\<close> literal always
  has the property \<^verbatim>\<open>'Authorization'\<close>, with the empty string when there is no token.
\<close>

definition smoke_request ::
  "(activity \<Rightarrow> string) \<Rightarrow> environment \<Rightarrow> test_config \<Rightarrow> ambient \<Rightarrow> request" where
  "smoke_request stringify env config amb =
    (let activity = smoke_createActivity env config amb ''smoke test'';
         payload = stringify activity
     in \<lparr>req_method = ''POST'', req_url = config_endpoint config,
         req_payload = Some payload,
         req_headers =
           object_literal
             [(''Content-Type'', ''application/json''),
              (''Authorization'',
                 if truthy (config_token config)
                 then ''Bearer '' @ in_template [] (config_token config) else [])],
         req_tags = Map.empty\<rparr>)"

text \<open>The console lines that depend on the status of the response.\<close>

definition smoke_status_lines :: "response \<Rightarrow> k6_effect list" where
  "smoke_status_lines r =
    (if status r = 401 then [ConsoleError ''Authentication failed - Check your BOT_TOKEN'']
     else if status r = 403
       then [ConsoleError ''Forbidden - Check bot permissions and credentials'']
     else if status r = 404 then [ConsoleError ''Not Found - Check the endpoint URL'']
     else if status r \<ge> 500
       then [ConsoleError ''Server error - Check bot application logs'',
             ConsoleError (''Response body: '' @ in_template ''null'' (body r))]
     else if status r = 200 \<or> status r = 202 then [ConsoleLog ''Message sent successfully'']
     else [ConsoleWarn (''Unexpected status: '' @ decimal (status r)),
           ConsoleWarn (''Response body: '' @ in_template ''null'' (body r))])"

text \<open>The request of the group \<^verbatim>\<open>'Health Check'\<close>: \<^verbatim>\<open>http.get(url)\<close>, without parameters.\<close>

definition health_request :: "string \<Rightarrow> request" where
  "health_request url =
    \<lparr>req_method = ''GET'', req_url = Some url, req_payload = None,
     req_headers = Map.empty, req_tags = Map.empty\<rparr>"

text \<open>The group \<^verbatim>\<open>'Health Check'\<close>, the same in both versions of the smoke test.\<close>

definition health_check :: "ambient \<Rightarrow> string \<Rightarrow> k6_effect list" where
  "health_check amb url =
    (let healthResponse = http_send amb (health_request url);
         (healthOk, results) =
            check healthResponse [(''health endpoint is accessible'', \<lambda>r. status r = 200)]
     in [ConsoleLog ''Testing health endpoint...'', HttpRequest (health_request url)] @ results @
        [if healthOk then ConsoleLog ''Health check passed''
         else ConsoleWarn (''Health check returned: '' @ decimal (status healthResponse))])"

text \<open>
  The default function of the smoke test. \<open>toFixed2\<close> is \<^verbatim>\<open>Number.prototype.toFixed(2)\<close>;
  \<open>amb\<close> answers both the health request and the message request. The health check runs
  only under \<^verbatim>\<open>if (config.healthEndpoint)\<close>.
\<close>

definition smoke_default ::
  "(activity \<Rightarrow> string) \<Rightarrow> (rat \<Rightarrow> string) \<Rightarrow> environment \<Rightarrow> test_config \<Rightarrow> ambient
   \<Rightarrow> k6_effect list" where
  "smoke_default stringify toFixed2 env config amb =
    (let health =
           (if truthy (config_healthEndpoint config)
            then health_check amb (in_template [] (config_healthEndpoint config))
            else []);
         req = smoke_request stringify env config amb;
         response = http_send amb req;
         (checks, results) = check response smoke_checks
     in [ConsoleLog (''Running smoke test for '' @ toUpperCase (ENV env) @ '' environment''),
         ConsoleLog (''Endpoint: '' @ in_template ''undefined'' (config_endpoint config))] @
        health @
        [ConsoleLog ''Testing bot message endpoint...'', HttpRequest req] @ results @
        [ConsoleLog (''Response status: '' @ decimal (status response)),
         ConsoleLog (''Response time: '' @ toFixed2 (timings_duration response) @ ''ms'')] @
        smoke_status_lines response @
        (if \<not> checks then [ConsoleError ''Some checks failed - review the output above'']
         else []) @
        (if \<not> truthy (config_token config)
         then [ConsoleWarn ''No BOT_TOKEN provided. Run `npm run generate-token` first.'']
         else []) @
        [ConsoleLog ''If smoke test passes, you can run full load tests:'',
         ConsoleLog (''   npm run test:'' @ ENV env)])"

section \<open>tests/smoke.test.js (version for a bot in load-test mode)\<close>

text \<open>\<^verbatim>\<open>const HEALTH_ENDPOINT = BOT_ENDPOINT.replace('/api/messages', '/api/health')\<close>.\<close>

definition HEALTH_ENDPOINT :: "environment \<Rightarrow> string" where
  "HEALTH_ENDPOINT env = health_of (BOT_ENDPOINT env)"

text \<open>This \<^verbatim>\<open>createActivity\<close> writes no \<^verbatim>\<open>tenantId\<close> into the conversation.\<close>

definition load_smoke_createActivity :: "environment \<Rightarrow> ambient \<Rightarrow> string \<Rightarrow> activity" where
  "load_smoke_createActivity env amb text =
    script_activity env
      (''smoke-test-'' @ decimal (date_now_first amb))
      (''smoke-conversation-'' @ decimal (date_now_second amb))
      ''29:smoke-test-user'' ''Smoke Test User''
      (Some ''workoflow-bot'') None (iso_timestamp amb) text"

definition load_smoke_checks :: "(string \<times> (response \<Rightarrow> bool)) list" where
  "load_smoke_checks =
    [(''endpoint is reachable'', \<lambda>r. status r \<noteq> 0),
     (''status is 200 or 202'', \<lambda>r. status r = 200 \<or> status r = 202),
     (''response time < 5s'', \<lambda>r. timings_duration r < 5000)]"

text \<open>The message request: the only header is \<^verbatim>\<open>'Content-Type'\<close>.\<close>

definition load_smoke_request ::
  "(activity \<Rightarrow> string) \<Rightarrow> environment \<Rightarrow> ambient \<Rightarrow> request" where
  "load_smoke_request stringify env amb =
    (let activity = load_smoke_createActivity env amb ''smoke test'';
         payload = stringify activity
     in \<lparr>req_method = ''POST'', req_url = Some (BOT_ENDPOINT env),
         req_payload = Some payload,
         req_headers = object_literal [(''Content-Type'', ''application/json'')],
         req_tags = Map.empty\<rparr>)"

definition load_smoke_status_lines :: "response \<Rightarrow> k6_effect list" where
  "load_smoke_status_lines r =
    (if status r = 200 \<or> status r = 202 then [ConsoleLog ''Message sent successfully'']
     else if status r = 404 then [ConsoleError ''Not Found - Check the endpoint URL'']
     else if status r \<ge> 500
       then [ConsoleError ''Server error - Check bot application logs'',
             ConsoleError (''Response body: '' @ in_template ''null'' (body r))]
     else [ConsoleWarn (''Unexpected status: '' @ decimal (status r)),
           ConsoleWarn (''Response body: '' @ in_template ''null'' (body r))])"

text \<open>The default function; here the health check always runs.\<close>

definition load_smoke_default ::
  "(activity \<Rightarrow> string) \<Rightarrow> (rat \<Rightarrow> string) \<Rightarrow> environment \<Rightarrow> ambient \<Rightarrow> k6_effect list" where
  "load_smoke_default stringify toFixed2 env amb =
    (let req = load_smoke_request stringify env amb;
         response = http_send amb req;
         (checks, results) = check response load_smoke_checks
     in [ConsoleLog ''Running smoke test'',
         ConsoleLog (''Endpoint: '' @ BOT_ENDPOINT env)] @
        health_check amb (HEALTH_ENDPOINT env) @
        [ConsoleLog ''Testing bot message endpoint...'', HttpRequest req] @ results @
        [ConsoleLog (''Response status: '' @ decimal (status response)),
         ConsoleLog (''Response time: '' @ toFixed2 (timings_duration response) @ ''ms'')] @
        load_smoke_status_lines response @
        (if \<not> checks then [ConsoleError ''Some checks failed - review the output above'']
         else []) @
        [ConsoleLog ''Running in LOAD_TEST_MODE (no authentication required)'',
         ConsoleLog ''If smoke test passes, you can run full load tests:'',
         ConsoleLog ''   npm test''])"

section \<open>Values that a run adds to one metric\<close>

text \<open>The values added to the metric of a given name, in the order of the trace.\<close>

fun metric_values :: "string \<Rightarrow> k6_effect list \<Rightarrow> metric_value list" where
  "metric_values name [] = []"
| "metric_values name (MetricAdd n v # es) =
     (if n = name then v # metric_values name es else metric_values name es)"
| "metric_values name (e # es) = metric_values name es"

text \<open>The requests of a trace.\<close>

fun requests_of :: "k6_effect list \<Rightarrow> request list" where
  "requests_of [] = []"
| "requests_of (HttpRequest r # es) = r # requests_of es"
| "requests_of (e # es) = requests_of es"

text \<open>Whether the checks of the default function fail on the response of an iteration.\<close>

definition simple_message_failed ::
  "(activity \<Rightarrow> string) \<Rightarrow> environment \<Rightarrow> test_config \<Rightarrow> ambient \<Rightarrow> bool" where
  "simple_message_failed stringify env config amb =
    (\<not> fst (check (http_send amb (simple_message_request stringify env config amb))
                  simple_message_checks))"

definition stress_failed ::
  "(activity \<Rightarrow> string) \<Rightarrow> environment \<Rightarrow> nat \<times> ambient \<Rightarrow> bool" where
  "stress_failed stringify env iteration =
    (case iteration of (vu, amb) \<Rightarrow>
       \<not> fst (check (http_send amb (stress_request stringify env vu amb)) load_mode_checks))"

text \<open>A run of the stress test: one iteration per entry, each by the virtual user named.\<close>

definition stress_trace ::
  "(activity \<Rightarrow> string) \<Rightarrow> environment \<Rightarrow> (nat \<times> ambient) list \<Rightarrow> k6_effect list" where
  "stress_trace stringify env iterations =
    concat (map (\<lambda>(vu, amb). stress_default stringify env vu amb) iterations)"

section \<open>The engine that runs the scripts\<close>

text \<open>
  The scheduler and the metric aggregates belong to the load-testing tool that executes the
  scripts; src/ has the scripts only. The definitions of this section follow sections 3,
  4.1 and 4.4 of the specification. Times are in milliseconds; sample values are rationals.
\<close>

text \<open>
  Modelled from the spec: the interpolation of the Stage Scheduler (absent from src/),
  \<open>prevTarget + (target - prevTarget) * (t - start) / duration\<close>, rounded to the nearest
  non-negative integer. \<open>elapsed\<close> is \<open>t - start\<close>.
\<close>

definition interpolate :: "nat \<Rightarrow> nat \<Rightarrow> nat \<Rightarrow> nat \<Rightarrow> nat" where
  "interpolate prevTarget tgt elapsed dur =
    nat (round (rat_of_nat prevTarget +
                (rat_of_nat tgt - rat_of_nat prevTarget) * rat_of_nat elapsed / rat_of_nat dur))"

text \<open>
  Modelled from the spec: the Stage Scheduler's walk over the StageSpec sequence (absent from
  src/). A stage covers \<open>[start, start + duration)\<close> and ramps from the previous stage's
  target; a stage of duration zero covers nothing, so the target jumps; after the last stage
  the last target is held.
\<close>

fun target_from :: "nat \<Rightarrow> nat \<Rightarrow> stage list \<Rightarrow> nat \<Rightarrow> nat" where
  "target_from prevTarget start [] t = prevTarget"
| "target_from prevTarget start (s # ss) t =
     (if t < start + stage_duration s
      then interpolate prevTarget (stage_target s) (t - start) (stage_duration s)
      else target_from (stage_target s) (start + stage_duration s) ss t)"

text \<open>
  Modelled from the spec: the Stage Scheduler's contract \<open>target(t)\<close> (absent from src/). The
  first stage ramps from 0; an empty stage list yields the constant target \<open>flat\<close> of the
  run configuration. The run is taken not to be stopping.
\<close>

definition target_at :: "nat \<Rightarrow> stage list \<Rightarrow> nat \<Rightarrow> nat" where
  "target_at flat stages t = (if stages = [] then flat else target_from 0 0 stages t)"

text \<open>
  Modelled from the spec: the \<open>start\<close> of stage \<open>i\<close> of a StageSpec sequence (the Stage
  Scheduler is absent from src/): the durations of the stages before it, added up.
\<close>

definition stage_start :: "stage list \<Rightarrow> nat \<Rightarrow> nat" where
  "stage_start stages i = sum_list (map stage_duration (take i stages))"

text \<open>
  Modelled from the spec: the \<open>prevTarget\<close> of stage \<open>i\<close> (the Stage Scheduler is absent from
  src/): "the previous stage's target (or 0 for the first)".
\<close>

definition stage_prevTarget :: "stage list \<Rightarrow> nat \<Rightarrow> nat" where
  "stage_prevTarget stages i = (if i = 0 then 0 else stage_target (stages ! (i - 1)))"

text \<open>
  Modelled from the spec: whether a value handed to a Rate is truthy, "nonzero/true" (the
  Metrics Aggregator is absent from src/).
\<close>

definition truthy_value :: "metric_value \<Rightarrow> bool" where
  "truthy_value v = (case v of BoolValue b \<Rightarrow> b | NumValue x \<Rightarrow> x \<noteq> 0)"

text \<open>
  Modelled from the spec: the number a Sample carries, "value: float" (the Metrics
  Aggregator is absent from src/); a boolean counts as 1 or 0.
\<close>

definition sample_number :: "metric_value \<Rightarrow> rat" where
  "sample_number v = (case v of BoolValue b \<Rightarrow> if b then 1 else 0 | NumValue x \<Rightarrow> x)"

text \<open>
  Modelled from the spec: the Rate aggregate of the Metrics Aggregator (absent from src/):
  "increment total; increment successes if value is truthy".
\<close>

record rate =
  rate_total :: nat
  rate_successes :: nat

text \<open>
  Modelled from the spec: a Rate before its first sample (the Metrics Aggregator is absent
  from src/).
\<close>

definition rate_empty :: rate where
  "rate_empty = \<lparr>rate_total = 0, rate_successes = 0\<rparr>"

text \<open>
  Modelled from the spec: the update of a Rate by one sample (the Metrics Aggregator is
  absent from src/).
\<close>

definition rate_record :: "metric_value \<Rightarrow> rate \<Rightarrow> rate" where
  "rate_record v r =
    \<lparr>rate_total = rate_total r + 1,
     rate_successes = (if truthy_value v then rate_successes r + 1 else rate_successes r)\<rparr>"

text \<open>
  Modelled from the spec: the value of a Rate, "successes/total" (the Metrics Aggregator is
  absent from src/); there is no value before the first sample.
\<close>

definition rate_value :: "rate \<Rightarrow> rat option" where
  "rate_value r =
    (if rate_total r = 0 then None
     else Some (rat_of_nat (rate_successes r) / rat_of_nat (rate_total r)))"

text \<open>
  Modelled from the spec: the Trend aggregate of the Metrics Aggregator (absent from src/):
  running count, min, max and a sum for the mean, and a quantile estimator that is fed
  every sample. The estimator is a parameter: its state \<open>'q\<close> and its \<open>feed\<close>.
\<close>

record 'q trend =
  trend_count :: nat
  trend_min :: "rat option"
  trend_max :: "rat option"
  trend_sum :: rat
  trend_quantiles :: 'q

text \<open>
  Modelled from the spec: a Trend before its first sample, with the estimator's initial
  state (the Metrics Aggregator is absent from src/).
\<close>

definition trend_empty :: "'q \<Rightarrow> 'q trend" where
  "trend_empty q =
    \<lparr>trend_count = 0, trend_min = None, trend_max = None, trend_sum = 0, trend_quantiles = q\<rparr>"

text \<open>
  Modelled from the spec: the update of a Trend by one sample (the Metrics Aggregator is
  absent from src/).
\<close>

definition trend_record :: "(rat \<Rightarrow> 'q \<Rightarrow> 'q) \<Rightarrow> rat \<Rightarrow> 'q trend \<Rightarrow> 'q trend" where
  "trend_record feed x t =
    \<lparr>trend_count = trend_count t + 1,
     trend_min = (case trend_min t of None \<Rightarrow> Some x | Some m \<Rightarrow> Some (min m x)),
     trend_max = (case trend_max t of None \<Rightarrow> Some x | Some m \<Rightarrow> Some (max m x)),
     trend_sum = trend_sum t + x,
     trend_quantiles = feed x (trend_quantiles t)\<rparr>"

text \<open>
  Modelled from the spec: the mean of a Trend from its sum and count (the Metrics
  Aggregator is absent from src/).
\<close>

definition trend_mean :: "'q trend \<Rightarrow> rat option" where
  "trend_mean t = (if trend_count t = 0 then None else Some (trend_sum t / rat_of_nat (trend_count t)))"

section \<open>Properties of lib/auth-helper.js\<close>

text \<open>The cache key is the two credentials joined by a colon, so distinct pairs can share a key.\<close>

lemma cacheKey_collision: "cacheKey ''a:b'' ''c'' = cacheKey ''a'' ''b:c''"
  by (simp add: cacheKey_def)

lemma getBotToken_hit:
  assumes "tokenCache (cacheKey appId appPassword) = Some c" and "nowCheck + 60000 < expiresAt c"
  shows "getBotToken lib nowCheck nowStore tokenCache appId appPassword audience =
           \<lparr>returned = Inr (token c), cache_after = tokenCache, effects = []\<rparr>"
  using assms by (simp add: getBotToken_def)

lemma getBotToken_miss:
  assumes "\<not> (\<exists>c. tokenCache (cacheKey appId appPassword) = Some c \<and> nowCheck + 60000 < expiresAt c)"
  shows "getBotToken lib nowCheck nowStore tokenCache appId appPassword audience =
           (case lib appId appPassword of
              Inr tok \<Rightarrow>
                \<lparr>returned = Inr tok,
                 cache_after = tokenCache(cacheKey appId appPassword \<mapsto>
                                 \<lparr>token = tok, expiresAt = nowStore + 3600000\<rparr>),
                 effects = [LibraryCall appId appPassword]\<rparr>
            | Inl msg \<Rightarrow>
                \<lparr>returned = Inl (Error (''Failed to generate token: '' @ msg)),
                 cache_after = tokenCache,
                 effects = [LibraryCall appId appPassword,
                            ErrorLine (''Error generating Bot Framework token: '' @ msg)]\<rparr>)"
proof (cases "tokenCache (cacheKey appId appPassword)")
  case None
  then show ?thesis by (simp add: getBotToken_def)
next
  case (Some c)
  with assms have "\<not> nowCheck + 60000 < expiresAt c" by simp
  with Some show ?thesis by (simp add: getBotToken_def)
qed

text \<open>
  The policy of \<open>getBotToken\<close> by cache key. The cached token is returned without a call of
  the credential library if and only if the cache has an entry under the key of the two
  credentials whose \<open>expiresAt\<close> is more than 60000 ms after the time of the check; in that
  case the cache is left as it is. Otherwise the library is called, and the token it yields
  is stored under the key with \<open>expiresAt\<close> equal to the time of the store plus 3600000 ms,
  and returned.
\<close>

lemma getBotToken_policy_by_key:
  "(let r = getBotToken lib nowCheck nowStore tokenCache appId appPassword audience;
        key = cacheKey appId appPassword;
        fresh_enough = (\<exists>c. tokenCache key = Some c \<and> nowCheck + 60000 < expiresAt c)
    in (fresh_enough \<longleftrightarrow> LibraryCall appId appPassword \<notin> set (effects r)) \<and>
       (\<forall>c. tokenCache key = Some c \<and> nowCheck + 60000 < expiresAt c
          \<longrightarrow> returned r = Inr (token c) \<and> cache_after r = tokenCache \<and> effects r = []) \<and>
       (\<forall>tok. \<not> fresh_enough \<and> lib appId appPassword = Inr tok
          \<longrightarrow> returned r = Inr tok \<and>
              cache_after r =
                tokenCache(key \<mapsto> \<lparr>token = tok, expiresAt = nowStore + 3600000\<rparr>)))"
proof (cases "\<exists>c. tokenCache (cacheKey appId appPassword) = Some c \<and> nowCheck + 60000 < expiresAt c")
  case True
  then obtain c where c: "tokenCache (cacheKey appId appPassword) = Some c"
    "nowCheck + 60000 < expiresAt c" by blast
  have "getBotToken lib nowCheck nowStore tokenCache appId appPassword audience
          = \<lparr>returned = Inr (token c), cache_after = tokenCache, effects = []\<rparr>"
    using c by (rule getBotToken_hit)
  with c show ?thesis by (auto simp: Let_def)
next
  case False
  have miss: "getBotToken lib nowCheck nowStore tokenCache appId appPassword audience =
           (case lib appId appPassword of
              Inr tok \<Rightarrow>
                \<lparr>returned = Inr tok,
                 cache_after = tokenCache(cacheKey appId appPassword \<mapsto>
                                 \<lparr>token = tok, expiresAt = nowStore + 3600000\<rparr>),
                 effects = [LibraryCall appId appPassword]\<rparr>
            | Inl msg \<Rightarrow>
                \<lparr>returned = Inl (Error (''Failed to generate token: '' @ msg)),
                 cache_after = tokenCache,
                 effects = [LibraryCall appId appPassword,
                            ErrorLine (''Error generating Bot Framework token: '' @ msg)]\<rparr>)"
    using False by (rule getBotToken_miss)
  show ?thesis
  proof (cases "lib appId appPassword")
    case (Inl msg)
    with miss False show ?thesis by (simp add: Let_def)
  next
    case (Inr tok)
    with miss False show ?thesis by (simp add: Let_def)
  qed
qed

text \<open>Two pairs whose app ids have no colon share a key only when they are the same pair.\<close>

lemma cacheKey_inj_without_colon:
  assumes "CHR '':'' \<notin> set appId" and "CHR '':'' \<notin> set appId'"
    and "cacheKey appId appPassword = cacheKey appId' appPassword'"
  shows "appId = appId' \<and> appPassword = appPassword'"
  using assms
proof (induction appId arbitrary: appId')
  case Nil
  then show ?case by (cases appId') (auto simp: cacheKey_def)
next
  case (Cons c cs)
  show ?case
  proof (cases appId')
    case Nil
    with Cons.prems show ?thesis by (auto simp: cacheKey_def)
  next
    case (Cons d ds)
    with Cons.prems have "c = d" and "CHR '':'' \<notin> set cs" and "CHR '':'' \<notin> set ds"
      and "cacheKey cs appPassword = cacheKey ds appPassword'"
      by (auto simp: cacheKey_def)
    with Cons.IH [of ds] Cons show ?thesis by simp
  qed
qed


text \<open>
  Claim C10. When the credential library throws while \<open>getBotToken\<close> is generating a fresh
  token (no entry under the key is fresh enough, so the library is called), \<open>getBotToken\<close>
  throws an \<open>Error\<close> whose message is \<open>Failed to generate token: \<close> followed by the
  library's message, and the cache is the same map as before the call.
\<close>

theorem getBotToken_failure_atomic:
  assumes "lib appId appPassword = Inl msg"
    and "\<not> (\<exists>c. tokenCache (cacheKey appId appPassword) = Some c \<and> nowCheck + 60000 < expiresAt c)"
  shows "\<exists>m. returned (getBotToken lib nowCheck nowStore tokenCache appId appPassword audience)
               = Inl (Error m)
           \<and> m = ''Failed to generate token: '' @ msg
           \<and> prefix ''Failed to generate token:'' m
           \<and> cache_after (getBotToken lib nowCheck nowStore tokenCache appId appPassword audience)
               = tokenCache"
proof -
  have "getBotToken lib nowCheck nowStore tokenCache appId appPassword audience =
          \<lparr>returned = Inl (Error (''Failed to generate token: '' @ msg)),
           cache_after = tokenCache,
           effects = [LibraryCall appId appPassword,
                      ErrorLine (''Error generating Bot Framework token: '' @ msg)]\<rparr>"
    using assms(1)
      getBotToken_miss [where tokenCache = tokenCache and appId = appId
        and appPassword = appPassword and nowCheck = nowCheck and lib = lib
        and nowStore = nowStore and audience = audience, OF assms(2)]
    by simp
  then show ?thesis by simp
qed

text \<open>A stale entry and a failing library: the error is thrown and the stale entry stays.\<close>

theorem getBotToken_failure_atomic_witness:
  "(\<lambda>a p. Inl ''AADSTS7000215'' :: string + string) ''id'' ''pw'' = Inl ''AADSTS7000215'' \<and>
   \<not> (\<exists>c. [''id:pw'' \<mapsto> \<lparr>token = ''old'', expiresAt = 150000\<rparr>] (cacheKey ''id'' ''pw'') = Some c
          \<and> (100000::int) + 60000 < expiresAt c) \<and>
   returned (getBotToken (\<lambda>a p. Inl ''AADSTS7000215'') 100000 100007
              [''id:pw'' \<mapsto> \<lparr>token = ''old'', expiresAt = 150000\<rparr>] ''id'' ''pw'' None)
     = Inl (Error ''Failed to generate token: AADSTS7000215'') \<and>
   cache_after (getBotToken (\<lambda>a p. Inl ''AADSTS7000215'') 100000 100007
              [''id:pw'' \<mapsto> \<lparr>token = ''old'', expiresAt = 150000\<rparr>] ''id'' ''pw'' None)
     = [''id:pw'' \<mapsto> \<lparr>token = ''old'', expiresAt = 150000\<rparr>]"
proof -
  have key: "cacheKey ''id'' ''pw'' = ''id:pw''" by (simp add: cacheKey_def)
  show ?thesis
    using getBotToken_failure_atomic [where lib = "\<lambda>a p. Inl ''AADSTS7000215''"
        and appId = "''id''" and appPassword = "''pw''" and msg = "''AADSTS7000215''"
        and tokenCache = "[''id:pw'' \<mapsto> \<lparr>token = ''old'', expiresAt = 150000\<rparr>]"
        and nowCheck = 100000 and nowStore = 100007 and audience = None]
    by (simp add: key)
qed

section \<open>Properties of lib/activity-factory.js\<close>

lemma createMessageActivity_returns:
  assumes "opt_from options = Some sender" and "opt_recipient options = Some addressee"
    and "opt_conversation options = Some conv"
  shows "\<exists>a n'. createMessageActivity uuids n isoNow options = Inr (a, n') \<and>
           conversationType (activity_conversation a)
             = or_else (conv_conversationType conv) ConversationTypes_PERSONAL \<and>
           isGroup (activity_conversation a)
             = (conv_conversationType conv = Some ConversationTypes_GROUP \<or>
                conv_conversationType conv = Some ConversationTypes_CHANNEL)"
  using assms by (simp add: createMessageActivity_def Let_def)

lemma createMessageActivity_Inr:
  assumes "createMessageActivity uuids n isoNow options = Inr (a, n')"
  shows "\<exists>conv. opt_conversation options = Some conv \<and>
           isGroup (activity_conversation a)
             = (conv_conversationType conv = Some ConversationTypes_GROUP \<or>
                conv_conversationType conv = Some ConversationTypes_CHANNEL)"
  using assms
  by (auto simp: createMessageActivity_def Let_def split: option.splits)

text \<open>
  Claim C9. Whenever \<open>createMessageActivity\<close> returns an activity, its
  \<open>conversation.isGroup\<close> is true if and only if \<open>options.conversation.conversationType\<close> is
  \<open>'group'\<close> or \<open>'channel'\<close>; and \<open>createTestActivity\<close> always returns an activity whose
  \<open>conversationType\<close> is \<open>'personal'\<close> and whose \<open>isGroup\<close> is false.
\<close>

theorem createMessageActivity_isGroup:
  "(\<forall>a n'. createMessageActivity uuids n isoNow options = Inr (a, n') \<longrightarrow>
      (isGroup (activity_conversation a) \<longleftrightarrow>
         (\<exists>conv. opt_conversation options = Some conv \<and>
            (conv_conversationType conv = Some ''group'' \<or>
             conv_conversationType conv = Some ''channel'')))) \<and>
   (\<exists>a n'. createTestActivity uuids n isoNow config message = Inr (a, n') \<and>
      conversationType (activity_conversation a) = ''personal'' \<and>
      \<not> isGroup (activity_conversation a))"
proof (intro conjI allI impI)
  fix a n'
  assume "createMessageActivity uuids n isoNow options = Inr (a, n')"
  from createMessageActivity_Inr [OF this]
  show "isGroup (activity_conversation a) \<longleftrightarrow>
         (\<exists>conv. opt_conversation options = Some conv \<and>
            (conv_conversationType conv = Some ''group'' \<or>
             conv_conversationType conv = Some ''channel''))"
    by (auto simp: ConversationTypes_GROUP_def ConversationTypes_CHANNEL_def)
next
  show "\<exists>a n'. createTestActivity uuids n isoNow config message = Inr (a, n') \<and>
      conversationType (activity_conversation a) = ''personal'' \<and>
      \<not> isGroup (activity_conversation a)"
    unfolding createTestActivity_def
    by (simp add: createMessageActivity_def Let_def or_else_def ConversationTypes_PERSONAL_def
        ConversationTypes_GROUP_def ConversationTypes_CHANNEL_def)
qed

text \<open>A channel conversation is a group conversation; a test activity is a personal one.\<close>

theorem createMessageActivity_isGroup_witness:
  "(\<exists>a n'. createMessageActivity (\<lambda>k. if k = 0 then ''u0'' else ''u1'') 0 ''2025-01-01T00:00:00.000Z''
       \<lparr>opt_text = Some ''hi'',
        opt_from = Some \<lparr>user_id = Some ''29:u'', user_name = None, user_aadObjectId = None\<rparr>,
        opt_recipient = Some \<lparr>bot_id = Some ''28:b'', bot_name = None\<rparr>,
        opt_conversation =
          Some \<lparr>conv_id = None, conv_conversationType = Some ''channel'', conv_tenantId = None,
                conv_teamsChannelId = None, conv_teamsTeamId = None\<rparr>,
        opt_serviceUrl = None, opt_channelId = None, opt_textFormat = None,
        opt_locale = None\<rparr> = Inr (a, n')
      \<and> isGroup (activity_conversation a) \<and> n' = 2
      \<and> conversation_id (activity_conversation a) = ''test-conversation-u1'')"
  using createMessageActivity_isGroup [where uuids = "\<lambda>k. if k = 0 then ''u0'' else ''u1''"
      and n = 0 and isoNow = "''2025-01-01T00:00:00.000Z''"
      and options = "\<lparr>opt_text = Some ''hi'',
        opt_from = Some \<lparr>user_id = Some ''29:u'', user_name = None, user_aadObjectId = None\<rparr>,
        opt_recipient = Some \<lparr>bot_id = Some ''28:b'', bot_name = None\<rparr>,
        opt_conversation =
          Some \<lparr>conv_id = None, conv_conversationType = Some ''channel'', conv_tenantId = None,
                conv_teamsChannelId = None, conv_teamsTeamId = None\<rparr>,
        opt_serviceUrl = None, opt_channelId = None, opt_textFormat = None,
        opt_locale = None\<rparr>"]
  by (simp add: createMessageActivity_def Let_def or_else_def truthy_def
      ConversationTypes_GROUP_def ConversationTypes_CHANNEL_def)

section \<open>Properties of the thresholds objects\<close>

lemma object_literal_fold:
  "fold (\<lambda>(k, v) obj. obj(k \<mapsto> v)) props m = m ++ map_of (rev props)"
proof (induction props arbitrary: m)
  case Nil
  show ?case by simp
next
  case (Cons p props)
  obtain k v where p: "p = (k, v)" by (cases p)
  have "fold (\<lambda>(k, v) obj. obj(k \<mapsto> v)) (p # props) m
          = fold (\<lambda>(k, v) obj. obj(k \<mapsto> v)) props (m(k \<mapsto> v))"
    by (simp only: p fold_Cons comp_apply prod.case)
  also have "\<dots> = m(k \<mapsto> v) ++ map_of (rev props)"
    by (rule Cons.IH)
  also have "\<dots> = m ++ map_of (rev (p # props))"
    by (rule ext) (simp add: p map_add_def split: option.splits)
  finally show ?case .
qed

text \<open>In an object literal the last property written with a key is the one the object has.\<close>

lemma object_literal_last_wins:
  assumes "k \<notin> fst ` set later"
  shows "object_literal (earlier @ (k, v) # later) k = Some v"
proof -
  have "map_of (rev later) k = None"
    using assms by (simp add: map_of_eq_None_iff)
  then show ?thesis
    by (simp add: object_literal_def object_literal_fold map_add_def)
qed

lemma simple_message_thresholds_duration:
  "simple_message_thresholds ''http_req_duration'' = Some [Threshold ''p(99)<1000'']"
  unfolding simple_message_thresholds_def simple_message_thresholds_literal_def
  using object_literal_last_wins
    [of "''http_req_duration''" "[(''errors'', [Threshold ''rate<0.05''])]"
        "[(''http_req_failed'', [Threshold ''rate<0.01'']),
          (''http_req_duration'', [Threshold ''p(95)<500''])]" "[Threshold ''p(99)<1000'']"]
  by simp

text \<open>
  Claim C1. Each thresholds object that is written with two \<open>http_req_duration\<close> properties
  (the options of both versions of the simple-message test and the three environment config
  files) evaluates to an object whose \<open>http_req_duration\<close> thresholds are the last property
  alone, the p(99) bound; the p(95) entry written before it is under no key of the
  evaluated object.
\<close>

theorem duplicate_duration_thresholds_overwritten:
  "(written_with ''http_req_duration'' simple_message_thresholds_literal = 2 \<and>
    thresholds_for simple_message_thresholds ''http_req_duration'' = [Threshold ''p(99)<1000''] \<and>
    (\<forall>k. Threshold ''p(95)<500'' \<notin> set (thresholds_for simple_message_thresholds k))) \<and>
   (written_with ''http_req_duration'' load_mode_thresholds_literal = 2 \<and>
    thresholds_for load_mode_thresholds ''http_req_duration'' = [Threshold ''p(99)<15000''] \<and>
    (\<forall>k. Threshold ''p(95)<10000'' \<notin> set (thresholds_for load_mode_thresholds k))) \<and>
   (written_with ''http_req_duration'' local_thresholds_literal = 2 \<and>
    thresholds_for (cfg_thresholds (local_config env)) ''http_req_duration''
      = [Threshold ''p(99)<1000''] \<and>
    (\<forall>k. Threshold ''p(95)<500'' \<notin> set (thresholds_for (cfg_thresholds (local_config env)) k))) \<and>
   (written_with ''http_req_duration'' stage_thresholds_literal = 2 \<and>
    thresholds_for (cfg_thresholds (stage_config env)) ''http_req_duration''
      = [Threshold ''p(99)<2000''] \<and>
    (\<forall>k. Threshold ''p(95)<1000'' \<notin> set (thresholds_for (cfg_thresholds (stage_config env)) k))) \<and>
   (written_with ''http_req_duration'' prod_thresholds_literal = 2 \<and>
    thresholds_for (cfg_thresholds (prod_config env)) ''http_req_duration''
      = [Threshold ''p(99)<3000''] \<and>
    (\<forall>k. Threshold ''p(95)<1500'' \<notin> set (thresholds_for (cfg_thresholds (prod_config env)) k)))"
proof (intro conjI)
  show "written_with ''http_req_duration'' simple_message_thresholds_literal = 2"
    by (simp add: written_with_def simple_message_thresholds_literal_def)
  show "thresholds_for simple_message_thresholds ''http_req_duration'' = [Threshold ''p(99)<1000'']"
    by (simp add: thresholds_for_def simple_message_thresholds_duration)
  show "\<forall>k. Threshold ''p(95)<500'' \<notin> set (thresholds_for simple_message_thresholds k)"
    by (simp add: thresholds_for_def simple_message_thresholds_def object_literal_def
        simple_message_thresholds_literal_def)
  show "written_with ''http_req_duration'' load_mode_thresholds_literal = 2"
    by (simp add: written_with_def load_mode_thresholds_literal_def)
  show "thresholds_for load_mode_thresholds ''http_req_duration'' = [Threshold ''p(99)<15000'']"
    by (simp add: thresholds_for_def load_mode_thresholds_def object_literal_def
        load_mode_thresholds_literal_def)
  show "\<forall>k. Threshold ''p(95)<10000'' \<notin> set (thresholds_for load_mode_thresholds k)"
    by (simp add: thresholds_for_def load_mode_thresholds_def object_literal_def
        load_mode_thresholds_literal_def)
  show "written_with ''http_req_duration'' local_thresholds_literal = 2"
    by (simp add: written_with_def local_thresholds_literal_def)
  show "thresholds_for (cfg_thresholds (local_config env)) ''http_req_duration''
      = [Threshold ''p(99)<1000'']"
    by (simp add: thresholds_for_def local_config_def object_literal_def
        local_thresholds_literal_def)
  show "\<forall>k. Threshold ''p(95)<500'' \<notin> set (thresholds_for (cfg_thresholds (local_config env)) k)"
    by (simp add: thresholds_for_def local_config_def object_literal_def
        local_thresholds_literal_def)
  show "written_with ''http_req_duration'' stage_thresholds_literal = 2"
    by (simp add: written_with_def stage_thresholds_literal_def)
  show "thresholds_for (cfg_thresholds (stage_config env)) ''http_req_duration''
      = [Threshold ''p(99)<2000'']"
    by (simp add: thresholds_for_def stage_config_def object_literal_def
        stage_thresholds_literal_def)
  show "\<forall>k. Threshold ''p(95)<1000'' \<notin> set (thresholds_for (cfg_thresholds (stage_config env)) k)"
    by (simp add: thresholds_for_def stage_config_def object_literal_def
        stage_thresholds_literal_def)
  show "written_with ''http_req_duration'' prod_thresholds_literal = 2"
    by (simp add: written_with_def prod_thresholds_literal_def)
  show "thresholds_for (cfg_thresholds (prod_config env)) ''http_req_duration''
      = [Threshold ''p(99)<3000'']"
    by (simp add: thresholds_for_def prod_config_def object_literal_def
        prod_thresholds_literal_def)
  show "\<forall>k. Threshold ''p(95)<1500'' \<notin> set (thresholds_for (cfg_thresholds (prod_config env)) k)"
    by (simp add: thresholds_for_def prod_config_def object_literal_def
        prod_thresholds_literal_def)
qed

section \<open>Properties of the test scripts\<close>

lemma metric_values_append:
  "metric_values name (es @ fs) = metric_values name es @ metric_values name fs"
  by (induction name es rule: metric_values.induct) auto

lemma requests_of_append: "requests_of (es @ fs) = requests_of es @ requests_of fs"
  by (induction es rule: requests_of.induct) auto

lemma metric_values_check: "metric_values name (snd (check val sets)) = []"
  by (induction sets) (auto simp: check_def)

lemma requests_of_check: "requests_of (snd (check val sets)) = []"
  by (induction sets) (auto simp: check_def)

lemma ConsoleError_notin_check: "ConsoleError msg \<notin> set (snd (check val sets))"
  by (auto simp: check_def)

text \<open>The default function of the authenticated simple-message test, step by step.\<close>

lemma simple_message_default_steps:
  "simple_message_default stringify env config amb =
     [HttpRequest (simple_message_request stringify env config amb)] @
     snd (check (http_send amb (simple_message_request stringify env config amb))
            simple_message_checks) @
     [MetricAdd ''errors'' (BoolValue (simple_message_failed stringify env config amb))] @
     (if simple_message_failed stringify env config amb
      then [ConsoleError
              (''Request failed: '' @
               decimal (status (http_send amb (simple_message_request stringify env config amb))) @
               '' - '' @
               in_template ''null''
                 (body (http_send amb (simple_message_request stringify env config amb))))]
      else []) @
     [Sleep 1]"
  by (simp add: simple_message_default_def simple_message_failed_def Let_def split: prod.splits)

lemma simple_message_default_errors:
  "metric_values ''errors'' (simple_message_default stringify env config amb)
     = [BoolValue (simple_message_failed stringify env config amb)]"
  by (simp add: simple_message_default_steps metric_values_append metric_values_check)

lemma simple_message_default_requests:
  "requests_of (simple_message_default stringify env config amb)
     = [simple_message_request stringify env config amb]"
  by (simp add: simple_message_default_steps requests_of_append requests_of_check)

lemma simple_message_iterations_errors:
  "metric_values ''errors'' (concat (map (simple_message_default stringify env config) ambs))
     = map (\<lambda>amb. BoolValue (simple_message_failed stringify env config amb)) ambs"
  by (induction ambs) (simp_all add: metric_values_append simple_message_default_errors)

lemma simple_message_iterations_requests:
  "requests_of (concat (map (simple_message_default stringify env config) ambs))
     = map (simple_message_request stringify env config) ambs"
  by (induction ambs) (simp_all add: requests_of_append simple_message_default_requests)

text \<open>The switch on the lowercased environment name.\<close>

lemma simple_message_select_unknown:
  assumes "toLowerCase (ENV env) \<notin> {''local'', ''stage'', ''prod''}"
  shows "simple_message_select env = Inl (Error (''Unknown environment: '' @ ENV env))"
  using assms by (simp add: simple_message_select_def Let_def)

lemma simple_message_select_known:
  assumes "simple_message_select env = Inr config"
  shows "toLowerCase (ENV env) \<in> {''local'', ''stage'', ''prod''}"
  using assms by (auto simp: simple_message_select_def Let_def split: if_splits)

text \<open>
  Claim C4, as the code has it. An \<open>ENV\<close> value whose lowercase form is not \<open>local\<close>,
  \<open>stage\<close> or \<open>prod\<close>, and a missing bot endpoint, make the script throw while the module
  is evaluated, with a message that names the environment or the missing endpoint, and no
  request is sent. A missing token is not fatal: the script writes a warning and runs its
  iterations.
\<close>

theorem simple_message_configuration_errors:
  "(toLowerCase (ENV env) \<notin> {''local'', ''stage'', ''prod''} \<longrightarrow>
      simple_message_run stringify env ambs =
        \<lparr>thrown = Some (Error (''Unknown environment: '' @ ENV env)), trace = []\<rparr>) \<and>
   (\<forall>config. simple_message_select env = Inr config \<and> \<not> truthy (config_endpoint config) \<longrightarrow>
      simple_message_run stringify env ambs =
        \<lparr>thrown = Some (Error (''Missing bot endpoint for environment: '' @ ENV env)),
         trace = []\<rparr>) \<and>
   (\<forall>config. simple_message_select env = Inr config \<and> truthy (config_endpoint config) \<and>
        \<not> truthy (config_token config) \<longrightarrow>
      thrown (simple_message_run stringify env ambs) = None \<and>
      trace (simple_message_run stringify env ambs) =
        ConsoleWarn ''No BOT_TOKEN provided. Run `npm run generate-token` to generate one.'' #
        concat (map (simple_message_default stringify env config) ambs) \<and>
      requests_of (trace (simple_message_run stringify env ambs)) =
        map (simple_message_request stringify env config) ambs)"
proof (intro conjI allI impI)
  assume "toLowerCase (ENV env) \<notin> {''local'', ''stage'', ''prod''}"
  then show "simple_message_run stringify env ambs =
        \<lparr>thrown = Some (Error (''Unknown environment: '' @ ENV env)), trace = []\<rparr>"
    by (simp add: simple_message_run_def simple_message_init_def simple_message_select_unknown)
next
  fix config
  assume "simple_message_select env = Inr config \<and> \<not> truthy (config_endpoint config)"
  then show "simple_message_run stringify env ambs =
        \<lparr>thrown = Some (Error (''Missing bot endpoint for environment: '' @ ENV env)),
         trace = []\<rparr>"
    by (simp add: simple_message_run_def simple_message_init_def)
next
  fix config
  assume a: "simple_message_select env = Inr config \<and> truthy (config_endpoint config) \<and>
        \<not> truthy (config_token config)"
  then show "thrown (simple_message_run stringify env ambs) = None"
    by (simp add: simple_message_run_def simple_message_init_def)
  from a show tr: "trace (simple_message_run stringify env ambs) =
        ConsoleWarn ''No BOT_TOKEN provided. Run `npm run generate-token` to generate one.'' #
        concat (map (simple_message_default stringify env config) ambs)"
    by (simp add: simple_message_run_def simple_message_init_def)
  show "requests_of (trace (simple_message_run stringify env ambs)) =
        map (simple_message_request stringify env config) ambs"
    by (simp add: tr simple_message_iterations_requests)
qed

text \<open>
  An unknown environment name, a stage run without \<open>STAGE_BOT_ENDPOINT\<close>, and a stage run
  without \<open>BOT_TOKEN\<close> that goes on to send the request of its one iteration.
\<close>

theorem simple_message_configuration_errors_witness:
  "simple_message_run (\<lambda>a. ''{}'') [''ENV'' \<mapsto> ''QA''] [] =
     \<lparr>thrown = Some (Error ''Unknown environment: QA''), trace = []\<rparr> \<and>
   simple_message_run (\<lambda>a. ''{}'') [''ENV'' \<mapsto> ''Stage''] [] =
     \<lparr>thrown = Some (Error ''Missing bot endpoint for environment: Stage''), trace = []\<rparr> \<and>
   thrown (simple_message_run (\<lambda>a. ''{}'')
            [''ENV'' \<mapsto> ''stage'', ''STAGE_BOT_ENDPOINT'' \<mapsto> ''https://bot.test/api/messages'']
            [\<lparr>date_now_first = 1, date_now_second = 2, random_suffix = ''k3x'',
              iso_timestamp = ''2025-01-01T00:00:00.000Z'', math_random = 0,
              http_send = (\<lambda>q. \<lparr>status = 401, timings_duration = 12, body = None\<rparr>)\<rparr>]) = None \<and>
   length (requests_of (trace (simple_message_run (\<lambda>a. ''{}'')
            [''ENV'' \<mapsto> ''stage'', ''STAGE_BOT_ENDPOINT'' \<mapsto> ''https://bot.test/api/messages'']
            [\<lparr>date_now_first = 1, date_now_second = 2, random_suffix = ''k3x'',
              iso_timestamp = ''2025-01-01T00:00:00.000Z'', math_random = 0,
              http_send = (\<lambda>q. \<lparr>status = 401, timings_duration = 12, body = None\<rparr>)\<rparr>]))) = 1"
proof -
  let ?s = "\<lambda>a::activity. ''{}''"
  let ?amb = "\<lparr>date_now_first = 1, date_now_second = 2, random_suffix = ''k3x'',
              iso_timestamp = ''2025-01-01T00:00:00.000Z'', math_random = 0,
              http_send = (\<lambda>q. \<lparr>status = 401, timings_duration = 12, body = None\<rparr>)\<rparr>"
  let ?e3 = "[''ENV'' \<mapsto> ''stage'', ''STAGE_BOT_ENDPOINT'' \<mapsto> ''https://bot.test/api/messages'']"
  have low: "toLowerCase ''QA'' = ''qa''" "toLowerCase ''Stage'' = ''stage''"
    "toLowerCase ''stage'' = ''stage''"
    by code_simp+
  have e1: "toLowerCase (ENV [''ENV'' \<mapsto> ''QA'']) \<notin> {''local'', ''stage'', ''prod''}"
    by (simp add: ENV_def or_else_def low)
  have e2: "simple_message_select [''ENV'' \<mapsto> ''Stage''] =
              Inr \<lparr>config_endpoint = None, config_healthEndpoint = None, config_appId = None,
                   config_tenantId = None, config_token = None\<rparr>"
    by (simp add: simple_message_select_def ENV_def or_else_def low)
  have e3: "simple_message_select ?e3 =
              Inr \<lparr>config_endpoint = Some ''https://bot.test/api/messages'',
                   config_healthEndpoint = None, config_appId = None,
                   config_tenantId = None, config_token = None\<rparr>"
    by (simp add: simple_message_select_def ENV_def or_else_def low)
  from simple_message_configuration_errors [of "[''ENV'' \<mapsto> ''QA'']" ?s "[]"] e1
  have first: "simple_message_run ?s [''ENV'' \<mapsto> ''QA''] [] =
     \<lparr>thrown = Some (Error ''Unknown environment: QA''), trace = []\<rparr>"
    by (simp add: ENV_def or_else_def)
  from simple_message_configuration_errors [of "[''ENV'' \<mapsto> ''Stage'']" ?s "[]"] e2
  have second: "simple_message_run ?s [''ENV'' \<mapsto> ''Stage''] [] =
     \<lparr>thrown = Some (Error ''Missing bot endpoint for environment: Stage''), trace = []\<rparr>"
    by (simp add: ENV_def or_else_def truthy_def)
  from simple_message_configuration_errors [of ?e3 ?s "[?amb]"] e3
  have third: "thrown (simple_message_run ?s ?e3 [?amb]) = None \<and>
               length (requests_of (trace (simple_message_run ?s ?e3 [?amb]))) = 1"
    by (simp add: truthy_def simple_message_default_requests)
  from first second third show ?thesis by simp
qed

text \<open>
  Claim C4 as stated fails for a missing token: in the stage environment with an endpoint
  and no \<open>BOT_TOKEN\<close> nothing is thrown, and the iteration sends its request.
\<close>

theorem missing_token_not_fatal:
  "config_token
     \<lparr>config_endpoint = Some ''https://bot.test/api/messages'', config_healthEndpoint = None,
      config_appId = None, config_tenantId = None, config_token = None\<rparr> = None \<and>
   simple_message_init
     [''ENV'' \<mapsto> ''stage'', ''STAGE_BOT_ENDPOINT'' \<mapsto> ''https://bot.test/api/messages''] =
     Inr (\<lparr>config_endpoint = Some ''https://bot.test/api/messages'',
           config_healthEndpoint = None, config_appId = None,
           config_tenantId = None, config_token = None\<rparr>,
          [ConsoleWarn ''No BOT_TOKEN provided. Run `npm run generate-token` to generate one.'']) \<and>
   thrown (simple_message_run (\<lambda>a. ''{}'')
            [''ENV'' \<mapsto> ''stage'', ''STAGE_BOT_ENDPOINT'' \<mapsto> ''https://bot.test/api/messages'']
            [\<lparr>date_now_first = 1, date_now_second = 2, random_suffix = ''k3x'',
              iso_timestamp = ''2025-01-01T00:00:00.000Z'', math_random = 0,
              http_send = (\<lambda>q. \<lparr>status = 401, timings_duration = 12, body = None\<rparr>)\<rparr>]) = None \<and>
   map req_url (requests_of (trace (simple_message_run (\<lambda>a. ''{}'')
            [''ENV'' \<mapsto> ''stage'', ''STAGE_BOT_ENDPOINT'' \<mapsto> ''https://bot.test/api/messages'']
            [\<lparr>date_now_first = 1, date_now_second = 2, random_suffix = ''k3x'',
              iso_timestamp = ''2025-01-01T00:00:00.000Z'', math_random = 0,
              http_send = (\<lambda>q. \<lparr>status = 401, timings_duration = 12, body = None\<rparr>)\<rparr>])))
     = [Some ''https://bot.test/api/messages'']"
proof -
  have low: "toLowerCase ''stage'' = ''stage''" by code_simp
  have init: "simple_message_init
     [''ENV'' \<mapsto> ''stage'', ''STAGE_BOT_ENDPOINT'' \<mapsto> ''https://bot.test/api/messages''] =
     Inr (\<lparr>config_endpoint = Some ''https://bot.test/api/messages'',
           config_healthEndpoint = None, config_appId = None,
           config_tenantId = None, config_token = None\<rparr>,
          [ConsoleWarn ''No BOT_TOKEN provided. Run `npm run generate-token` to generate one.''])"
    by (simp add: simple_message_init_def simple_message_select_def ENV_def or_else_def low
        truthy_def)
  show ?thesis
    by (simp add: init simple_message_run_def simple_message_default_requests
        simple_message_request_def Let_def)
qed

text \<open>
  The header \<open>Authorization\<close> script by script. The request of the authenticated
  simple-message test has it exactly when a token is configured, with \<open>Bearer\<close> and the
  token as value. The message request of the authenticated smoke test has it always: with
  \<open>Bearer\<close> and the token when one is configured, with the empty string when none is. The
  health requests and the requests of the scripts for a bot in load-test mode never have it.
\<close>

lemma authorization_header_by_script:
  "req_headers (simple_message_request stringify env config amb) ''Authorization'' =
     (case config_token config of
        None \<Rightarrow> None
      | Some t \<Rightarrow> if t = [] then None else Some (''Bearer '' @ t)) \<and>
   req_headers (smoke_request stringify env config amb) ''Authorization'' =
     Some (case config_token config of
             None \<Rightarrow> []
           | Some t \<Rightarrow> if t = [] then [] else ''Bearer '' @ t) \<and>
   req_headers (health_request url) ''Authorization'' = None \<and>
   req_headers (load_mode_request stringify env amb) ''Authorization'' = None \<and>
   req_headers (stress_request stringify env vu amb) ''Authorization'' = None \<and>
   req_headers (load_smoke_request stringify env amb) ''Authorization'' = None"
  by (simp add: simple_message_request_def smoke_request_def load_mode_request_def
      stress_request_def load_smoke_request_def health_request_def api_key_headers_def
      object_literal_def Let_def truthy_def in_template_def split: option.splits)

lemma health_check_requests: "requests_of (health_check amb url) = [health_request url]"
  by (simp add: health_check_def Let_def case_prod_beta requests_of_append requests_of_check)

lemma smoke_status_lines_requests: "requests_of (smoke_status_lines r) = []"
  by (simp add: smoke_status_lines_def)

text \<open>The smoke test sends the health request, when there is a health endpoint, and then the
  message request.\<close>

lemma smoke_default_requests:
  "requests_of (smoke_default stringify toFixed2 env config amb) =
     (if truthy (config_healthEndpoint config)
      then [health_request (in_template [] (config_healthEndpoint config))] else []) @
     [smoke_request stringify env config amb]"
  by (simp add: smoke_default_def Let_def case_prod_beta requests_of_append requests_of_check
      health_check_requests smoke_status_lines_requests)

text \<open>
  Claim C6. With a token configured the request carries \<open>Authorization: Bearer\<close> and the
  token, and without a token no \<open>Authorization\<close> header is attached: so the authenticated
  simple-message test does it, under the comment that the header is added only if a token
  is provided. The authenticated smoke test fails the claim. Run with an empty environment
  (local endpoint, no \<open>BOT_TOKEN\<close>), its iteration sends two requests: the health request
  without the header, and the message request with the header \<open>Authorization\<close> attached and
  the empty string as its value. The simple-message test, on the same environment, attaches
  none.
\<close>

theorem smoke_sends_empty_authorization:
  "(let env = Map.empty;
        config = \<lparr>config_endpoint = Some ''http://localhost:3978/api/messages'',
                  config_healthEndpoint = Some ''http://localhost:3978/api/health'',
                  config_appId = None, config_tenantId = None, config_token = None\<rparr>;
        amb = \<lparr>date_now_first = 1, date_now_second = 2, random_suffix = ''k3x'',
               iso_timestamp = ''2025-01-01T00:00:00.000Z'', math_random = 0,
               http_send = (\<lambda>q. \<lparr>status = 200, timings_duration = 12, body = None\<rparr>)\<rparr>;
        steps = smoke_default (\<lambda>a. ''{}'') (\<lambda>x. ''12.00'') env config amb
    in smoke_select env = Inr config \<and>
       config_token config = None \<and>
       map (\<lambda>r. (req_method r, req_headers r ''Authorization'')) (requests_of steps)
         = [(''GET'', None), (''POST'', Some [])] \<and>
       simple_message_select env = Inr (config\<lparr>config_healthEndpoint := None\<rparr>) \<and>
       req_headers
         (simple_message_request (\<lambda>a. ''{}'') env (config\<lparr>config_healthEndpoint := None\<rparr>) amb)
         ''Authorization'' = None)"
proof -
  have low: "toLowerCase ''local'' = ''local''" by code_simp
  show ?thesis
    by (simp add: Let_def smoke_select_def simple_message_select_def ENV_def or_else_def low
        truthy_def LOCAL_ENDPOINT_def smoke_default_requests in_template_def
        health_request_def smoke_request_def simple_message_request_def object_literal_def)
qed

lemma simple_message_checks_pass:
  "fst (check r simple_message_checks) \<longleftrightarrow>
     (status r = 200 \<or> status r = 202) \<and> timings_duration r < 1000 \<and>
     (\<not> truthy (body r) \<or> \<not> str_includes (in_template [] (body r)) ''error'')"
  by (simp add: check_def simple_message_checks_def)

text \<open>
  Claim C7. For every response, the default function adds exactly one sample to the
  \<open>errors\<close> Rate, the negation of the combined result of the three checks; it writes a
  line to \<open>console.error\<close> exactly when the checks failed; it sends one request; and its
  last step is the sleep of one second. The function has no throwing step, so a run
  executes every iteration whatever the responses of the earlier ones were.
\<close>

theorem simple_message_default_failure_contained:
  "(let response = http_send amb (simple_message_request stringify env config amb);
        success = fst (check response simple_message_checks);
        steps = simple_message_default stringify env config amb
    in (success \<longleftrightarrow>
          (status response = 200 \<or> status response = 202) \<and>
          timings_duration response < 1000 \<and>
          (\<not> truthy (body response) \<or>
           \<not> str_includes (in_template [] (body response)) ''error'')) \<and>
       metric_values ''errors'' steps = [BoolValue (\<not> success)] \<and>
       ((\<exists>line. ConsoleError line \<in> set steps) \<longleftrightarrow> \<not> success) \<and>
       requests_of steps = [simple_message_request stringify env config amb] \<and>
       last steps = Sleep 1) \<and>
   (\<forall>warnings. simple_message_init env = Inr (config, warnings) \<longrightarrow>
      thrown (simple_message_run stringify env ambs) = None \<and>
      requests_of (trace (simple_message_run stringify env ambs)) =
        map (simple_message_request stringify env config) ambs \<and>
      metric_values ''errors'' (trace (simple_message_run stringify env ambs)) =
        map (\<lambda>amb. BoolValue (simple_message_failed stringify env config amb)) ambs)"
proof (intro conjI allI impI)
  let ?response = "http_send amb (simple_message_request stringify env config amb)"
  let ?steps = "simple_message_default stringify env config amb"
  have failed: "simple_message_failed stringify env config amb
                  = (\<not> fst (check ?response simple_message_checks))"
    by (simp add: simple_message_failed_def)
  have errors: "metric_values ''errors'' ?steps
                  = [BoolValue (\<not> fst (check ?response simple_message_checks))]"
    by (simp add: simple_message_default_errors failed)
  have logged: "(\<exists>line. ConsoleError line \<in> set ?steps)
                  \<longleftrightarrow> \<not> fst (check ?response simple_message_checks)"
    by (auto simp: simple_message_default_steps failed ConsoleError_notin_check)
  have slept: "last ?steps = Sleep 1"
    by (simp add: simple_message_default_steps)
  show "let response = ?response;
            success = fst (check response simple_message_checks);
            steps = ?steps
        in (success \<longleftrightarrow>
              (status response = 200 \<or> status response = 202) \<and>
              timings_duration response < 1000 \<and>
              (\<not> truthy (body response) \<or>
               \<not> str_includes (in_template [] (body response)) ''error'')) \<and>
           metric_values ''errors'' steps = [BoolValue (\<not> success)] \<and>
           ((\<exists>line. ConsoleError line \<in> set steps) \<longleftrightarrow> \<not> success) \<and>
           requests_of steps = [simple_message_request stringify env config amb] \<and>
           last steps = Sleep 1"
    unfolding Let_def
    using errors logged slept simple_message_checks_pass [of ?response]
      simple_message_default_requests [of stringify env config amb]
    by blast
next
  fix warnings
  assume init: "simple_message_init env = Inr (config, warnings)"
  then show "thrown (simple_message_run stringify env ambs) = None"
    by (simp add: simple_message_run_def)
  have no_requests: "requests_of warnings = []" and no_values: "metric_values ''errors'' warnings = []"
    using init by (auto simp: simple_message_init_def split: sum.splits if_splits)
  from init no_requests
  show "requests_of (trace (simple_message_run stringify env ambs)) =
        map (simple_message_request stringify env config) ambs"
    by (simp add: simple_message_run_def requests_of_append simple_message_iterations_requests)
  from init no_values
  show "metric_values ''errors'' (trace (simple_message_run stringify env ambs)) =
        map (\<lambda>amb. BoolValue (simple_message_failed stringify env config amb)) ambs"
    by (simp add: simple_message_run_def metric_values_append simple_message_iterations_errors)
qed

text \<open>
  A local run of two iterations: the first response is a 500 whose body mentions an error,
  the second a 200. The first iteration records \<open>true\<close> on \<open>errors\<close>, logs, and sleeps; the
  second iteration still runs.
\<close>

theorem simple_message_default_failure_contained_witness:
  "(let bad = \<lparr>date_now_first = 1, date_now_second = 2, random_suffix = ''k3x'',
               iso_timestamp = ''2025-01-01T00:00:00.000Z'', math_random = 0,
               http_send = (\<lambda>q. \<lparr>status = 500, timings_duration = 12,
                                   body = Some ''Internal error''\<rparr>)\<rparr>;
        good = \<lparr>date_now_first = 3, date_now_second = 4, random_suffix = ''q9z'',
                iso_timestamp = ''2025-01-01T00:00:01.000Z'', math_random = 0,
                http_send = (\<lambda>q. \<lparr>status = 200, timings_duration = 12, body = None\<rparr>)\<rparr>;
        env = [''BOT_TOKEN'' \<mapsto> ''tok''];
        config = \<lparr>config_endpoint = Some LOCAL_ENDPOINT, config_healthEndpoint = None,
                  config_appId = None, config_tenantId = None, config_token = Some ''tok''\<rparr>;
        steps = simple_message_default (\<lambda>a. ''{}'') env config bad;
        run = simple_message_run (\<lambda>a. ''{}'') env [bad, good]
    in simple_message_init env = Inr (config, []) \<and>
       metric_values ''errors'' steps = [BoolValue True] \<and>
       (\<exists>line. ConsoleError line \<in> set steps) \<and>
       last steps = Sleep 1 \<and>
       thrown run = None \<and>
       length (requests_of (trace run)) = 2 \<and>
       metric_values ''errors'' (trace run) = [BoolValue True, BoolValue False])"
proof -
  let ?bad = "\<lparr>date_now_first = 1, date_now_second = 2, random_suffix = ''k3x'',
               iso_timestamp = ''2025-01-01T00:00:00.000Z'', math_random = 0,
               http_send = (\<lambda>q. \<lparr>status = 500, timings_duration = 12,
                                   body = Some ''Internal error''\<rparr>)\<rparr>"
  let ?good = "\<lparr>date_now_first = 3, date_now_second = 4, random_suffix = ''q9z'',
                iso_timestamp = ''2025-01-01T00:00:01.000Z'', math_random = 0,
                http_send = (\<lambda>q. \<lparr>status = 200, timings_duration = 12, body = None\<rparr>)\<rparr>"
  let ?env = "[''BOT_TOKEN'' \<mapsto> ''tok'']"
  let ?config = "\<lparr>config_endpoint = Some LOCAL_ENDPOINT, config_healthEndpoint = None,
                  config_appId = None, config_tenantId = None, config_token = Some ''tok''\<rparr>"
  let ?s = "\<lambda>a::activity. ''{}''"
  have low: "toLowerCase ''local'' = ''local''" by code_simp
  have init: "simple_message_init ?env = Inr (?config, [])"
    by (simp add: simple_message_init_def simple_message_select_def ENV_def or_else_def low
        truthy_def LOCAL_ENDPOINT_def)
  have bad: "\<not> fst (check (http_send ?bad (simple_message_request ?s ?env ?config ?bad))
                      simple_message_checks)"
    by (simp add: simple_message_checks_pass)
  have good: "fst (check (http_send ?good (simple_message_request ?s ?env ?config ?good))
                      simple_message_checks)"
    by (simp add: simple_message_checks_pass truthy_def)
  from simple_message_default_failure_contained [of ?bad ?s ?env ?config "[?bad, ?good]"]
    init bad good
  show ?thesis
    by (simp add: Let_def simple_message_failed_def)
qed

section \<open>Properties of the metric aggregates\<close>

lemma rate_fold:
  "rate_total (fold rate_record vs r) = rate_total r + length vs \<and>
   rate_successes (fold rate_record vs r) = rate_successes r + length (filter truthy_value vs)"
  by (induction vs arbitrary: r) (simp_all add: rate_record_def)

lemma truthy_BoolValue_count:
  "truthy_value \<circ> (\<lambda>x. BoolValue (P x)) = P"
  by (rule ext) (simp add: truthy_value_def)

text \<open>The default function of the stress test, step by step.\<close>

lemma stress_default_steps:
  "stress_default stringify env vu amb =
     [HttpRequest (stress_request stringify env vu amb),
      MetricAdd ''total_requests'' (NumValue 1),
      MetricAdd ''response_time_trend''
        (NumValue (timings_duration (http_send amb (stress_request stringify env vu amb))))] @
     snd (check (http_send amb (stress_request stringify env vu amb)) load_mode_checks) @
     [MetricAdd ''success_rate'' (BoolValue (\<not> stress_failed stringify env (vu, amb))),
      MetricAdd ''errors'' (BoolValue (stress_failed stringify env (vu, amb)))] @
     (if stress_failed stringify env (vu, amb)
      then [ConsoleError
              (''['' @ getCurrentPhase vu @ ''] Request failed: '' @
               decimal (status (http_send amb (stress_request stringify env vu amb))) @
               '' - '' @
               in_template ''undefined''
                 (map_option (take 200)
                    (body (http_send amb (stress_request stringify env vu amb)))))]
      else []) @
     [Sleep (math_random amb * (1 / 2) + 1 / 2)]"
  by (simp add: stress_default_def stress_failed_def Let_def split: prod.splits)

lemma stress_default_values:
  "metric_values ''errors'' (stress_default stringify env vu amb)
     = [BoolValue (stress_failed stringify env (vu, amb))]"
  "metric_values ''success_rate'' (stress_default stringify env vu amb)
     = [BoolValue (\<not> stress_failed stringify env (vu, amb))]"
  "metric_values ''response_time_trend'' (stress_default stringify env vu amb)
     = [NumValue (timings_duration (http_send amb (stress_request stringify env vu amb)))]"
  by (simp_all add: stress_default_steps metric_values_append metric_values_check)

lemma stress_trace_values:
  "metric_values ''errors'' (stress_trace stringify env iterations)
     = map (\<lambda>it. BoolValue (stress_failed stringify env it)) iterations"
  "metric_values ''success_rate'' (stress_trace stringify env iterations)
     = map (\<lambda>it. BoolValue (\<not> stress_failed stringify env it)) iterations"
  "metric_values ''response_time_trend'' (stress_trace stringify env iterations)
     = map (\<lambda>(vu, amb).
              NumValue (timings_duration (http_send amb (stress_request stringify env vu amb))))
         iterations"
  by (induction iterations;
      simp add: stress_trace_def metric_values_append stress_default_values split: prod.splits)+

text \<open>
  Claim C8. For every sequence of values added to a Rate, the total is the number of
  values added and the success count is the number of truthy ones. So the \<open>errors\<close> Rate of
  a run of the simple-message test has the number of iterations as total and the number
  of iterations whose checks failed as successes, and its value is their quotient; the
  \<open>errors\<close> and \<open>success_rate\<close> Rates of the stress test count in the same way.
\<close>

theorem rate_counts:
  "rate_total (fold rate_record vs rate_empty) = length vs \<and>
   rate_successes (fold rate_record vs rate_empty) = length (filter truthy_value vs) \<and>
   (\<forall>warnings. simple_message_init env = Inr (config, warnings) \<longrightarrow>
      (let errors = fold rate_record
                      (metric_values ''errors'' (trace (simple_message_run stringify env ambs)))
                      rate_empty;
           failed = length (filter (simple_message_failed stringify env config) ambs)
       in rate_total errors = length ambs \<and>
          rate_successes errors = failed \<and>
          (ambs \<noteq> [] \<longrightarrow>
             rate_value errors = Some (rat_of_nat failed / rat_of_nat (length ambs))))) \<and>
   (let errors = fold rate_record
                   (metric_values ''errors'' (stress_trace stringify env iterations)) rate_empty;
        successes = fold rate_record
                   (metric_values ''success_rate'' (stress_trace stringify env iterations))
                   rate_empty;
        failed = length (filter (stress_failed stringify env) iterations)
    in rate_total errors = length iterations \<and>
       rate_successes errors = failed \<and>
       rate_total successes = length iterations \<and>
       rate_successes successes = length iterations - failed)"
proof (intro conjI allI impI)
  show "rate_total (fold rate_record vs rate_empty) = length vs"
    by (simp add: rate_fold rate_empty_def)
  show "rate_successes (fold rate_record vs rate_empty) = length (filter truthy_value vs)"
    by (simp add: rate_fold rate_empty_def)
next
  fix warnings
  assume init: "simple_message_init env = Inr (config, warnings)"
  have "metric_values ''errors'' warnings = []"
    using init by (auto simp: simple_message_init_def split: sum.splits if_splits)
  with init have recorded:
    "metric_values ''errors'' (trace (simple_message_run stringify env ambs)) =
       map (\<lambda>amb. BoolValue (simple_message_failed stringify env config amb)) ambs"
    by (simp add: simple_message_run_def metric_values_append simple_message_iterations_errors)
  show "let errors = fold rate_record
                      (metric_values ''errors'' (trace (simple_message_run stringify env ambs)))
                      rate_empty;
           failed = length (filter (simple_message_failed stringify env config) ambs)
       in rate_total errors = length ambs \<and>
          rate_successes errors = failed \<and>
          (ambs \<noteq> [] \<longrightarrow>
             rate_value errors = Some (rat_of_nat failed / rat_of_nat (length ambs)))"
    by (simp add: Let_def recorded rate_fold rate_empty_def truthy_BoolValue_count rate_value_def)
next
  have passed: "length (filter (\<lambda>it. \<not> stress_failed stringify env it) iterations)
                  = length iterations - length (filter (stress_failed stringify env) iterations)"
    using sum_length_filter_compl [of "stress_failed stringify env" iterations] by simp
  show "let errors = fold rate_record
                   (metric_values ''errors'' (stress_trace stringify env iterations)) rate_empty;
        successes = fold rate_record
                   (metric_values ''success_rate'' (stress_trace stringify env iterations))
                   rate_empty;
        failed = length (filter (stress_failed stringify env) iterations)
    in rate_total errors = length iterations \<and>
       rate_successes errors = failed \<and>
       rate_total successes = length iterations \<and>
       rate_successes successes = length iterations - failed"
    by (simp add: Let_def stress_trace_values rate_fold rate_empty_def truthy_BoolValue_count
        passed)
qed

text \<open>
  Three values of which two are truthy; and the local run of two iterations, of which the
  first fails its checks: the \<open>errors\<close> Rate is one half.
\<close>

theorem rate_counts_witness:
  "rate_total (fold rate_record [BoolValue True, NumValue 0, NumValue 3] rate_empty) = 3 \<and>
   rate_successes (fold rate_record [BoolValue True, NumValue 0, NumValue 3] rate_empty) = 2 \<and>
   (let bad = \<lparr>date_now_first = 1, date_now_second = 2, random_suffix = ''k3x'',
               iso_timestamp = ''2025-01-01T00:00:00.000Z'', math_random = 0,
               http_send = (\<lambda>q. \<lparr>status = 500, timings_duration = 12,
                                   body = Some ''Internal error''\<rparr>)\<rparr>;
        good = \<lparr>date_now_first = 3, date_now_second = 4, random_suffix = ''q9z'',
                iso_timestamp = ''2025-01-01T00:00:01.000Z'', math_random = 0,
                http_send = (\<lambda>q. \<lparr>status = 200, timings_duration = 12, body = None\<rparr>)\<rparr>;
        env = [''BOT_TOKEN'' \<mapsto> ''tok''];
        config = \<lparr>config_endpoint = Some LOCAL_ENDPOINT, config_healthEndpoint = None,
                  config_appId = None, config_tenantId = None, config_token = Some ''tok''\<rparr>;
        errors = fold rate_record
                   (metric_values ''errors''
                      (trace (simple_message_run (\<lambda>a. ''{}'') env [bad, good])))
                   rate_empty
    in simple_message_init env = Inr (config, []) \<and>
       rate_total errors = 2 \<and> rate_successes errors = 1 \<and>
       rate_value errors = Some (1 / 2))"
proof -
  let ?bad = "\<lparr>date_now_first = 1, date_now_second = 2, random_suffix = ''k3x'',
               iso_timestamp = ''2025-01-01T00:00:00.000Z'', math_random = 0,
               http_send = (\<lambda>q. \<lparr>status = 500, timings_duration = 12,
                                   body = Some ''Internal error''\<rparr>)\<rparr>"
  let ?good = "\<lparr>date_now_first = 3, date_now_second = 4, random_suffix = ''q9z'',
                iso_timestamp = ''2025-01-01T00:00:01.000Z'', math_random = 0,
                http_send = (\<lambda>q. \<lparr>status = 200, timings_duration = 12, body = None\<rparr>)\<rparr>"
  let ?env = "[''BOT_TOKEN'' \<mapsto> ''tok'']"
  let ?config = "\<lparr>config_endpoint = Some LOCAL_ENDPOINT, config_healthEndpoint = None,
                  config_appId = None, config_tenantId = None, config_token = Some ''tok''\<rparr>"
  let ?s = "\<lambda>a::activity. ''{}''"
  let ?vs = "[BoolValue True, NumValue 0, NumValue 3]"
  have low: "toLowerCase ''local'' = ''local''" by code_simp
  have init: "simple_message_init ?env = Inr (?config, [])"
    by (simp add: simple_message_init_def simple_message_select_def ENV_def or_else_def low
        truthy_def LOCAL_ENDPOINT_def)
  have bad: "simple_message_failed ?s ?env ?config ?bad"
    by (simp add: simple_message_failed_def simple_message_checks_pass)
  have good: "\<not> simple_message_failed ?s ?env ?config ?good"
    by (simp add: simple_message_failed_def simple_message_checks_pass truthy_def)
  have truthy: "filter truthy_value ?vs = [BoolValue True, NumValue 3]"
    by (simp add: truthy_value_def)
  from rate_counts [of ?vs ?env ?config ?s "[?bad, ?good]" "[]"] init bad good truthy
  show ?thesis
    by (simp add: Let_def)
qed

lemma trend_fold_count:
  "trend_count (fold (trend_record feed) xs t) = trend_count t + length xs"
  by (induction xs arbitrary: t) (simp_all add: trend_record_def)

text \<open>
  Claim C3. For every finite multiset of samples recorded to a Trend, whatever the order
  \<open>xs\<close> in which they are recorded, the count of the final aggregate is the size of the
  multiset; two updates of the count commute. In a run of the stress test the Trend
  \<open>response_time_trend\<close> ends with the number of iterations as its count.
\<close>

theorem trend_count_order_independent:
  "(\<forall>xs. mset xs = samples \<longrightarrow>
      trend_count (fold (trend_record feed) xs (trend_empty q)) = size samples) \<and>
   (\<forall>xs ys. mset xs = mset ys \<longrightarrow>
      trend_count (fold (trend_record feed) xs t) = trend_count (fold (trend_record feed) ys t)) \<and>
   trend_count (trend_record feed x (trend_record feed y t))
     = trend_count (trend_record feed y (trend_record feed x t)) \<and>
   trend_count
     (fold (trend_record feed)
        (map sample_number
           (metric_values ''response_time_trend'' (stress_trace stringify env iterations)))
        (trend_empty q))
     = length iterations"
proof (intro conjI allI impI)
  fix xs
  assume "mset xs = samples"
  then have "length xs = size samples" by (metis size_mset)
  then show "trend_count (fold (trend_record feed) xs (trend_empty q)) = size samples"
    by (simp add: trend_fold_count trend_empty_def)
next
  fix xs ys :: "rat list"
  assume "mset xs = mset ys"
  then have "length xs = length ys" by (rule mset_eq_length)
  then show "trend_count (fold (trend_record feed) xs t)
               = trend_count (fold (trend_record feed) ys t)"
    by (simp add: trend_fold_count)
next
  show "trend_count (trend_record feed x (trend_record feed y t))
          = trend_count (trend_record feed y (trend_record feed x t))"
    by (simp add: trend_record_def)
next
  show "trend_count
     (fold (trend_record feed)
        (map sample_number
           (metric_values ''response_time_trend'' (stress_trace stringify env iterations)))
        (trend_empty q))
     = length iterations"
    by (simp add: trend_fold_count trend_empty_def stress_trace_values)
qed

text \<open>
  The samples 120, 80 and 120 recorded in two different orders, with a list that keeps
  every sample as the quantile estimator: the count is 3 both times.
\<close>

theorem trend_count_order_independent_witness:
  "mset [120, 80, 120] = {#80, 120, 120#} \<and> mset [80, 120, 120] = mset [120, 80, 120 :: rat] \<and>
   trend_count (fold (trend_record (#)) [120, 80, 120] (trend_empty [])) = 3 \<and>
   trend_count (fold (trend_record (#)) [80, 120, 120] (trend_empty [])) = 3"
proof -
  have a: "mset [120, 80, 120] = {#80, 120, 120 :: rat#}" by simp
  have b: "mset [80, 120, 120] = mset [120, 80, 120 :: rat]" by simp
  have c: "size {#80, 120, 120 :: rat#} = 3" by simp
  from trend_count_order_independent [of "{#80, 120, 120#}" "(#)" "[]"] a b c
  have "trend_count (fold (trend_record (#)) [120, 80, 120] (trend_empty [])) = 3"
    by metis
  moreover from trend_count_order_independent [of "{#80, 120, 120#}" "(#)" "[]" "trend_empty []"]
    b calculation
  have "trend_count (fold (trend_record (#)) [80, 120, 120] (trend_empty [])) = 3"
    by metis
  ultimately show ?thesis using a b by simp
qed

section \<open>Properties of the Stage Scheduler\<close>

lemma interpolate_start: "interpolate prevTarget tgt 0 dur = prevTarget"
  by (simp add: interpolate_def)

lemma stage_start_Suc:
  "i < length stages \<Longrightarrow> stage_start stages (Suc i) = stage_start stages i + stage_duration (stages ! i)"
  by (simp add: stage_start_def take_Suc_conv_app_nth)

lemma stage_start_Cons:
  "stage_start (s # ss) (Suc i) = stage_duration s + stage_start ss i"
  by (simp add: stage_start_def)

text \<open>Inside stage \<open>i\<close> the walk ends in the interpolation of that stage.\<close>

lemma target_from_in_stage:
  assumes "i < length ss"
    and "start + stage_start ss i \<le> t"
    and "t < start + stage_start ss i + stage_duration (ss ! i)"
  shows "target_from prevTarget start ss t =
           interpolate (if i = 0 then prevTarget else stage_target (ss ! (i - 1)))
             (stage_target (ss ! i)) (t - (start + stage_start ss i)) (stage_duration (ss ! i))"
  using assms
proof (induction ss arbitrary: i prevTarget start)
  case Nil
  then show ?case by simp
next
  case (Cons s ss)
  show ?case
  proof (cases i)
    case 0
    with Cons.prems show ?thesis by (simp add: stage_start_def)
  next
    case (Suc j)
    with Cons.prems have j: "j < length ss"
      and lo: "(start + stage_duration s) + stage_start ss j \<le> t"
      and hi: "t < (start + stage_duration s) + stage_start ss j + stage_duration (ss ! j)"
      by (simp_all add: stage_start_Cons)
    from lo have skip: "\<not> t < start + stage_duration s" by simp
    have prev: "(if j = 0 then stage_target s else stage_target (ss ! (j - 1)))
                  = stage_target ((s # ss) ! j)"
      by (cases j) simp_all
    from Cons.IH [OF j lo hi, of "stage_target s"] skip prev Suc
    show ?thesis by (simp add: stage_start_Cons add.assoc)
  qed
qed

text \<open>From the end of the last stage on, the last target is held.\<close>

lemma target_from_after:
  assumes "start + sum_list (map stage_duration ss) \<le> t"
  shows "target_from prevTarget start ss t = (if ss = [] then prevTarget else stage_target (last ss))"
  using assms
proof (induction ss arbitrary: prevTarget start)
  case Nil
  show ?case by simp
next
  case (Cons s ss)
  from Cons.prems have skip: "\<not> t < start + stage_duration s"
    and rest: "(start + stage_duration s) + sum_list (map stage_duration ss) \<le> t"
    by simp_all
  from Cons.IH [OF rest, of "stage_target s"] skip show ?case by simp
qed

lemma target_at_in_stage:
  assumes "i < length stages" and "stage_start stages i \<le> t"
    and "t < stage_start stages i + stage_duration (stages ! i)"
  shows "target_at flat stages t =
           interpolate (stage_prevTarget stages i) (stage_target (stages ! i))
             (t - stage_start stages i) (stage_duration (stages ! i))"
proof -
  from assms(1) have "stages \<noteq> []" by auto
  with target_from_in_stage [of i stages 0 t 0] assms
  show ?thesis by (simp add: target_at_def stage_prevTarget_def)
qed

lemma target_at_boundary:
  assumes "i < length stages"
    and "Suc i < length stages \<Longrightarrow> 0 < stage_duration (stages ! Suc i)"
  shows "target_at flat stages (stage_start stages i + stage_duration (stages ! i))
           = stage_target (stages ! i)"
proof (cases "Suc i < length stages")
  case True
  let ?t = "stage_start stages i + stage_duration (stages ! i)"
  have t: "?t = stage_start stages (Suc i)"
    using assms(1) by (simp add: stage_start_Suc)
  have "target_at flat stages ?t =
          interpolate (stage_prevTarget stages (Suc i)) (stage_target (stages ! Suc i))
            (?t - stage_start stages (Suc i)) (stage_duration (stages ! Suc i))"
    using True assms(2) t by (intro target_at_in_stage) simp_all
  then show ?thesis
    by (simp add: t interpolate_start stage_prevTarget_def)
next
  case False
  with assms(1) have last: "Suc i = length stages" by simp
  then have ne: "stages \<noteq> []" by auto
  from last have "stage_start stages (Suc i) = sum_list (map stage_duration stages)"
    by (simp add: stage_start_def)
  with assms(1) have total:
    "stage_start stages i + stage_duration (stages ! i) = sum_list (map stage_duration stages)"
    by (simp add: stage_start_Suc)
  from last have "length stages - 1 = i" by simp
  with last_conv_nth [OF ne] have "last stages = stages ! i"
    by simp
  with target_from_after [of 0 stages "sum_list (map stage_duration stages)" 0] ne total
  show ?thesis by (simp add: target_at_def)
qed

text \<open>
  Claim C2, as the scheduler of the specification has it. For every StageSpec sequence and
  every time \<open>t\<close> inside a stage \<open>[start, start + duration)\<close>, the target is
  \<open>prevTarget + (target - prevTarget) * (t - start) / duration\<close> rounded to the nearest
  non-negative integer. At the end of a stage that is not directly followed by a stage of
  duration zero, the target is that stage's declared target exactly. For the stages
  \<open>[{duration: 10s, target: 5}]\<close>, and for the stages of the simple-message test, the
  target at 5 s is 2 or 3 and the target at 10 s is 5.
\<close>

theorem scheduler_target:
  "(\<forall>i. i < length stages \<and> stage_start stages i \<le> t \<and>
        t < stage_start stages i + stage_duration (stages ! i) \<longrightarrow>
      target_at flat stages t =
        nat (round (rat_of_nat (stage_prevTarget stages i) +
                    (rat_of_nat (stage_target (stages ! i)) -
                     rat_of_nat (stage_prevTarget stages i)) *
                    rat_of_nat (t - stage_start stages i) /
                    rat_of_nat (stage_duration (stages ! i))))) \<and>
   (\<forall>i. i < length stages \<and>
        (Suc i < length stages \<longrightarrow> 0 < stage_duration (stages ! Suc i)) \<longrightarrow>
      target_at flat stages (stage_start stages i + stage_duration (stages ! i))
        = stage_target (stages ! i)) \<and>
   target_at flat [\<lparr>stage_duration = 10000, stage_target = 5\<rparr>] 5000 \<in> {2, 3} \<and>
   target_at flat [\<lparr>stage_duration = 10000, stage_target = 5\<rparr>] 10000 = 5 \<and>
   target_at flat simple_message_stages 5000 \<in> {2, 3} \<and>
   target_at flat simple_message_stages 10000 = 5"
proof (intro conjI allI impI)
  fix i
  assume "i < length stages \<and> stage_start stages i \<le> t \<and>
        t < stage_start stages i + stage_duration (stages ! i)"
  then have "target_at flat stages t =
           interpolate (stage_prevTarget stages i) (stage_target (stages ! i))
             (t - stage_start stages i) (stage_duration (stages ! i))"
    by (intro target_at_in_stage) simp_all
  then show "target_at flat stages t =
        nat (round (rat_of_nat (stage_prevTarget stages i) +
                    (rat_of_nat (stage_target (stages ! i)) -
                     rat_of_nat (stage_prevTarget stages i)) *
                    rat_of_nat (t - stage_start stages i) /
                    rat_of_nat (stage_duration (stages ! i))))"
    by (simp only: interpolate_def)
next
  fix i
  assume "i < length stages \<and>
        (Suc i < length stages \<longrightarrow> 0 < stage_duration (stages ! Suc i))"
  then show "target_at flat stages (stage_start stages i + stage_duration (stages ! i))
        = stage_target (stages ! i)"
    by (intro target_at_boundary) simp_all
next
  have "target_at flat [\<lparr>stage_duration = 10000, stage_target = 5\<rparr>] 5000 = 3"
    by (simp add: target_at_def interpolate_def round_def)
  then show "target_at flat [\<lparr>stage_duration = 10000, stage_target = 5\<rparr>] 5000 \<in> {2, 3}"
    by simp
  show "target_at flat [\<lparr>stage_duration = 10000, stage_target = 5\<rparr>] 10000 = 5"
    by (simp add: target_at_def)
  have "target_at flat simple_message_stages 5000 = 3"
    by (simp add: target_at_def simple_message_stages_def interpolate_def round_def)
  then show "target_at flat simple_message_stages 5000 \<in> {2, 3}"
    by simp
  show "target_at flat simple_message_stages 10000 = 5"
    by (simp add: target_at_def simple_message_stages_def interpolate_start)
qed

text \<open>
  The stages of the simple-message test: half-way down the last ramp (45 s) the target is
  the rounding of 2.5; at the end of the hold stage (40 s) it is the 5 declared there.
\<close>

theorem scheduler_target_witness:
  "(2 < length simple_message_stages \<and> stage_start simple_message_stages 2 \<le> 45000 \<and>
    45000 < stage_start simple_message_stages 2 + stage_duration (simple_message_stages ! 2)) \<and>
   target_at 0 simple_message_stages 45000 = 3 \<and>
   (1 < length simple_message_stages \<and> 0 < stage_duration (simple_message_stages ! Suc 1)) \<and>
   stage_start simple_message_stages 1 + stage_duration (simple_message_stages ! 1) = 40000 \<and>
   target_at 0 simple_message_stages 40000 = 5"
proof -
  have starts: "stage_start simple_message_stages 2 = 40000"
    "stage_start simple_message_stages 1 = 10000"
    by (simp_all add: stage_start_def simple_message_stages_def numeral_2_eq_2)
  have stage2: "stage_duration (simple_message_stages ! 2) = 10000"
    "stage_target (simple_message_stages ! 2) = 0"
    "stage_prevTarget simple_message_stages 2 = 5"
    by (simp_all add: stage_prevTarget_def simple_message_stages_def)
  have stage1: "stage_duration (simple_message_stages ! 1) = 30000"
    "stage_target (simple_message_stages ! 1) = 5"
    by (simp_all add: simple_message_stages_def)
  have inside: "2 < length simple_message_stages \<and> stage_start simple_message_stages 2 \<le> 45000 \<and>
    45000 < stage_start simple_message_stages 2 + stage_duration (simple_message_stages ! 2)"
    by (simp add: starts stage2) (simp add: simple_message_stages_def)
  have positive: "1 < length simple_message_stages \<and>
                  0 < stage_duration (simple_message_stages ! Suc 1)"
    by (simp add: simple_message_stages_def)
  then have boundary: "1 < length simple_message_stages \<and>
    (Suc 1 < length simple_message_stages \<longrightarrow> 0 < stage_duration (simple_message_stages ! Suc 1))"
    by blast
  from scheduler_target [of simple_message_stages 45000 0] inside
  have "target_at 0 simple_message_stages 45000 =
          nat (round (rat_of_nat (stage_prevTarget simple_message_stages 2) +
                    (rat_of_nat (stage_target (simple_message_stages ! 2)) -
                     rat_of_nat (stage_prevTarget simple_message_stages 2)) *
                    rat_of_nat (45000 - stage_start simple_message_stages 2) /
                    rat_of_nat (stage_duration (simple_message_stages ! 2))))"
    by blast
  then have first: "target_at 0 simple_message_stages 45000 = 3"
    by (simp add: starts stage2 round_def)
  from scheduler_target [of simple_message_stages 45000 0] boundary
  have "target_at 0 simple_message_stages
          (stage_start simple_message_stages 1 + stage_duration (simple_message_stages ! 1))
        = stage_target (simple_message_stages ! 1)"
    by blast
  then have second: "target_at 0 simple_message_stages 40000 = 5"
    unfolding starts stage1 by simp
  have sum: "stage_start simple_message_stages 1 + stage_duration (simple_message_stages ! 1) = 40000"
    unfolding starts stage1 by simp
  from inside first positive sum second show ?thesis by blast
qed

text \<open>
  Claim C2 as stated fails at the end of a stage that is followed by a stage of duration
  zero: after \<open>{duration: 10s, target: 5}\<close>, \<open>{duration: 0s, target: 7}\<close> the first stage
  ends at 10 s with 5 declared, and the target at 10 s is 7.
\<close>

theorem boundary_before_zero_duration_stage:
  "stage_start [\<lparr>stage_duration = 10000, stage_target = 5\<rparr>,
                \<lparr>stage_duration = 0, stage_target = 7\<rparr>] 0 +
   stage_duration ([\<lparr>stage_duration = 10000, stage_target = 5\<rparr>,
                    \<lparr>stage_duration = 0, stage_target = 7\<rparr>] ! 0) = 10000 \<and>
   stage_target ([\<lparr>stage_duration = 10000, stage_target = 5\<rparr>,
                  \<lparr>stage_duration = 0, stage_target = 7\<rparr>] ! 0) = 5 \<and>
   target_at 0 [\<lparr>stage_duration = 10000, stage_target = 5\<rparr>,
                \<lparr>stage_duration = 0, stage_target = 7\<rparr>] 10000 = 7"
  by (simp add: stage_start_def target_at_def)


end
